theory Spec2Isabelle
  imports Main "HOL-Library.Word"
begin

section \<open>The column-chunk writer of parquet/column\_writer.cc\<close>

text \<open>
  The development follows \<^verbatim>\<open>cpp/src/parquet/column_writer.cc\<close>: the level encoder, the
  page assembly of \<^verbatim>\<open>ColumnWriter\<close>, the typed writer with its dictionary fallback,
  the writer factory and the batch entry points.

  Conventions of the embedding.
  \<^item> A C++ member function becomes a function from the writer to an outcome and the
    writer after the call. An exception is the outcome \<open>Inl\<close>; the writer that comes
    with it is the object as the throw left it, since C++ does not roll members back.
  \<^item> The 64-bit counters are \<open>int\<close>. The narrowing conversions the source writes,
    \<^verbatim>\<open>static_cast<int>\<close> and \<^verbatim>\<open>static_cast<int32_t>\<close>, are kept: they wrap to
    32 bits two's complement.
  \<^item> \<^verbatim>\<open>DCHECK\<close> is compiled out of release builds and is not modelled.
  \<^item> Allocation (\<^verbatim>\<open>Resize\<close>, \<^verbatim>\<open>Copy\<close>, \<^verbatim>\<open>AllocateBuffer\<close>) succeeds.
  \<^item> A pointer to an array is a list; \<^verbatim>\<open>&a[k]\<close> is \<open>drop k a\<close>. A loop that reads
    \<^verbatim>\<open>a[0..n)\<close> reads \<open>take n a\<close>: the caller owes the source an array of at least
    \<open>n\<close> entries.
  \<^item> The classes of other libraries and of headers outside this file (the value
    encoders, the statistics, Arrow's RLE encoder and bit writer, the page writer) are
    parameters: records of functions over an abstract state.
\<close>

subsection \<open>Plain data\<close>

type_synonym byte = "8 word"

text \<open>A level is an \<^verbatim>\<open>int16_t\<close>; \<open>sint\<close> reads it as C++ promotes it in a comparison.\<close>

type_synonym level = "16 word"

datatype Encoding =
    PLAIN
  | PLAIN_DICTIONARY
  | RLE
  | BIT_PACKED
  | DELTA_BINARY_PACKED
  | DELTA_LENGTH_BYTE_ARRAY
  | DELTA_BYTE_ARRAY
  | RLE_DICTIONARY

text \<open>\<open>OTHER_TYPE\<close> stands for an enumerator value outside the eight named ones.\<close>

datatype PhysicalType =
    BOOLEAN
  | INT32
  | INT64
  | INT96
  | FLOAT
  | DOUBLE
  | BYTE_ARRAY
  | FIXED_LEN_BYTE_ARRAY
  | OTHER_TYPE int

text \<open>
  \<open>ParquetException msg\<close> is \<^verbatim>\<open>throw ParquetException(msg)\<close>, \<open>NYI msg\<close> is
  \<^verbatim>\<open>ParquetException::NYI(msg)\<close>, and \<open>Crash\<close> is a fault the hardware raises
  (a division by zero, a null pointer read).
\<close>

datatype error = ParquetException string | NYI string | Crash string

record ColumnDescriptor =
  physical_type :: PhysicalType
  path :: "string list"
  max_definition_level :: level
  max_repetition_level :: level
  is_optional :: bool

text \<open>
  The writer properties. \<open>column_encoding\<close> is \<^verbatim>\<open>properties->encoding(path)\<close>; the other
  fields carry the name of their accessor.
\<close>

record WriterProperties =
  column_encoding :: "string list \<Rightarrow> Encoding"
  dictionary_enabled :: "string list \<Rightarrow> bool"
  dictionary_page_encoding :: Encoding
  dictionary_index_encoding :: Encoding
  dictionary_pagesize_limit :: int
  data_pagesize :: int
  write_batch_size :: int
  statistics_enabled :: "string list \<Rightarrow> bool"

record 'es CompressedDataPage =
  page_buffer :: "byte list"
  page_num_values :: int
  page_encoding :: Encoding
  definition_level_encoding :: Encoding
  repetition_level_encoding :: Encoding
  page_uncompressed_size :: int
  page_statistics_of :: 'es

record DictionaryPage =
  dict_buffer :: "byte list"
  dict_num_values :: int
  dict_encoding :: Encoding

text \<open>What the page writer has received, in order.\<close>

datatype 'es sink_event =
    DictionaryPageWritten DictionaryPage
  | DataPageWritten "'es CompressedDataPage"
  | PagerClosed bool bool

subsection \<open>Narrowing conversions and byte order\<close>

definition static_cast_int :: "int \<Rightarrow> int" where
  "static_cast_int x = sint (word_of_int x :: 32 word)"

text \<open>
  \<^verbatim>\<open>reinterpret_cast<int32_t*>(p)[0] = v\<close> on the little-endian hosts the library
  is built for: the low byte first.
\<close>

definition store_int32 :: "int \<Rightarrow> byte list" where
  "store_int32 v =
     (let x = (word_of_int v :: 32 word)
      in [ucast x, ucast (drop_bit 8 x), ucast (drop_bit 16 x), ucast (drop_bit 24 x)])"

text \<open>C++ integer division truncates towards zero; the remainder has the dividend's sign.\<close>

definition cpp_div :: "int \<Rightarrow> int \<Rightarrow> int" where
  "cpp_div a b = sgn a * sgn b * (\<bar>a\<bar> div \<bar>b\<bar>)"

definition cpp_mod :: "int \<Rightarrow> int \<Rightarrow> int" where
  "cpp_mod a b = a - b * cpp_div a b"

text \<open>\<^verbatim>\<open>std::stringstream << int64_t\<close>: the decimal digits, a minus sign before a negative.\<close>

fun show_nat :: "nat \<Rightarrow> string" where
  "show_nat n =
     (if n < 10 then [char_of (48 + n)]
      else show_nat (n div 10) @ [char_of (48 + n mod 10)])"

declare show_nat.simps [simp del]

definition show_int :: "int \<Rightarrow> string" where
  "show_int i = (if i < 0 then CHR ''-'' # show_nat (nat (- i)) else show_nat (nat i))"

subsection \<open>The collaborators\<close>

text \<open>
  The value encoders of \<^verbatim>\<open>parquet/encoding-internal.h\<close> over the column's value type
  \<open>'v\<close>, with state \<open>'e\<close>. \<open>Put vs n\<close> is \<^verbatim>\<open>Put(vs, n)\<close>; \<open>FlushValues\<close> returns the
  value payload and the encoder after the flush. The last four are the operations of
  \<^verbatim>\<open>DictEncoder\<close>; \<open>FreeAll\<close> is \<^verbatim>\<open>mem_pool()->FreeAll()\<close>.
\<close>

record ('v, 'e) encoder_ops =
  PlainEncoder_new :: 'e
  DictEncoder_new :: 'e
  Put :: "'v list \<Rightarrow> int \<Rightarrow> 'e \<Rightarrow> 'e"
  PutSpaced :: "'v list \<Rightarrow> int \<Rightarrow> byte list \<Rightarrow> int \<Rightarrow> 'e \<Rightarrow> 'e"
  EstimatedDataEncodedSize :: "'e \<Rightarrow> int"
  FlushValues :: "'e \<Rightarrow> byte list \<times> 'e"
  dict_encoded_size :: "'e \<Rightarrow> int"
  WriteDict :: "'e \<Rightarrow> byte list"
  FreeAll :: "'e \<Rightarrow> 'e"
  num_entries :: "'e \<Rightarrow> int"

text \<open>
  The statistics of \<^verbatim>\<open>parquet/statistics.h\<close> with state \<open>'s\<close> and encoded form \<open>'es\<close>.
  \<open>EncodedStatistics_new\<close> is the default-constructed \<^verbatim>\<open>EncodedStatistics\<close>.
\<close>

record ('v, 's, 'es) stats_ops =
  TypedStats_new :: 's
  Update :: "'v list \<Rightarrow> int \<Rightarrow> int \<Rightarrow> 's \<Rightarrow> 's"
  UpdateSpaced :: "'v list \<Rightarrow> byte list \<Rightarrow> int \<Rightarrow> int \<Rightarrow> int \<Rightarrow> 's \<Rightarrow> 's"
  Encode :: "'s \<Rightarrow> 'es"
  Merge :: "'s \<Rightarrow> 's \<Rightarrow> 's"
  Reset :: "'s \<Rightarrow> 's"
  EncodedStatistics_new :: 'es
  is_set :: "'es \<Rightarrow> bool"

text \<open>
  Arrow's \<^verbatim>\<open>BitUtil\<close>, \<^verbatim>\<open>RleEncoder\<close> (state \<open>'r\<close>) and \<^verbatim>\<open>BitWriter\<close>
  (state \<open>'b\<close>). \<open>RleEncoder_new size width\<close> is the encoder over a target region of
  \<open>size\<close> bytes. \<open>RleEncoder_bytes\<close> is what the encoder has written to the start of that
  region; \<^verbatim>\<open>len()\<close> is the number of those bytes.
\<close>

record ('r, 'b) level_ops =
  Log2 :: "int \<Rightarrow> int"
  Ceil :: "int \<Rightarrow> int \<Rightarrow> int"
  RleEncoder_MaxBufferSize :: "int \<Rightarrow> int \<Rightarrow> int"
  RleEncoder_MinBufferSize :: "int \<Rightarrow> int"
  RleEncoder_new :: "int \<Rightarrow> int \<Rightarrow> 'r"
  RleEncoder_Put :: "level \<Rightarrow> 'r \<Rightarrow> bool \<times> 'r"
  RleEncoder_Flush :: "'r \<Rightarrow> 'r"
  RleEncoder_bytes :: "'r \<Rightarrow> byte list"
  BitWriter_new :: "int \<Rightarrow> 'b"
  BitWriter_PutValue :: "level \<Rightarrow> int \<Rightarrow> 'b \<Rightarrow> bool \<times> 'b"
  BitWriter_Flush :: "'b \<Rightarrow> 'b"

definition RleEncoder_len :: "('r, 'b) level_ops \<Rightarrow> 'r \<Rightarrow> int" where
  "RleEncoder_len L r = int (length (RleEncoder_bytes L r))"

text \<open>
  The page writer. It records what it is given (the \<open>sink_event\<close> list kept in the
  writer); these are its compressor and the byte counts its two write calls return.
\<close>

record 'es pager_ops =
  has_compressor :: bool
  Compress :: "byte list \<Rightarrow> byte list"
  pager_WriteDataPage :: "'es CompressedDataPage \<Rightarrow> int"
  pager_WriteDictionaryPage :: "DictionaryPage \<Rightarrow> int"

record ('v, 'e, 's, 'es, 'r, 'b) collaborators =
  encoders :: "('v, 'e) encoder_ops"
  stats :: "('v, 's, 'es) stats_ops"
  levels :: "('r, 'b) level_ops"
  pager_of :: "'es pager_ops"

subsection \<open>LevelEncoder\<close>

record ('r, 'b) LevelEncoder =
  bit_width :: int
  level_encoding :: Encoding
  rle_encoder :: "'r option"
  bit_packed_encoder :: "'b option"
  rle_length :: int

text \<open>
  \<^verbatim>\<open>LevelEncoder()\<close> initialises no member: the two pointers start null, and the
  integers, written by \<open>Init\<close> and \<open>Encode\<close> before they are read, start as given here.
\<close>

definition LevelEncoder_new :: "('r, 'b) LevelEncoder" where
  "LevelEncoder_new =
     \<lparr>bit_width = 0, level_encoding = RLE, rle_encoder = None,
      bit_packed_encoder = None, rle_length = 0\<rparr>"

definition LevelEncoder_Init ::
  "('r, 'b) level_ops \<Rightarrow> Encoding \<Rightarrow> level \<Rightarrow> int \<Rightarrow> int \<Rightarrow> ('r, 'b) LevelEncoder
    \<Rightarrow> (error + unit) \<times> ('r, 'b) LevelEncoder" where
  "LevelEncoder_Init L enc max_level num_buffered data_size le =
     (let le1 = le\<lparr>bit_width := Log2 L (sint max_level + 1), level_encoding := enc\<rparr>
      in case enc of
           RLE \<Rightarrow>
             (Inr (), le1\<lparr>rle_encoder := Some (RleEncoder_new L data_size (bit_width le1))\<rparr>)
         | BIT_PACKED \<Rightarrow>
             (let num_bytes = static_cast_int (Ceil L (num_buffered * bit_width le1) 8)
              in (Inr (), le1\<lparr>bit_packed_encoder := Some (BitWriter_new L num_bytes)\<rparr>))
         | _ \<Rightarrow> (Inl (ParquetException ''Unknown encoding type for levels.''), le1))"

definition LevelEncoder_MaxBufferSize ::
  "('r, 'b) level_ops \<Rightarrow> Encoding \<Rightarrow> level \<Rightarrow> int \<Rightarrow> error + int" where
  "LevelEncoder_MaxBufferSize L enc max_level num_buffered =
     (let bw = Log2 L (sint max_level + 1)
      in case enc of
           RLE \<Rightarrow>
             Inr (RleEncoder_MaxBufferSize L bw num_buffered + RleEncoder_MinBufferSize L bw)
         | BIT_PACKED \<Rightarrow> Inr (static_cast_int (Ceil L (num_buffered * bw) 8))
         | _ \<Rightarrow> Inl (ParquetException ''Unknown encoding type for levels.''))"

text \<open>The two loops of \<open>Encode\<close>: put level after level, stop at the first refusal.\<close>

fun rle_put_levels :: "('r, 'b) level_ops \<Rightarrow> level list \<Rightarrow> 'r \<Rightarrow> int \<times> 'r" where
  "rle_put_levels L [] r = (0, r)"
| "rle_put_levels L (l # ls) r =
     (case RleEncoder_Put L l r of
        (False, r') \<Rightarrow> (0, r')
      | (True, r') \<Rightarrow> (case rle_put_levels L ls r' of (n, r'') \<Rightarrow> (n + 1, r'')))"

fun bit_put_levels :: "('r, 'b) level_ops \<Rightarrow> int \<Rightarrow> level list \<Rightarrow> 'b \<Rightarrow> int \<times> 'b" where
  "bit_put_levels L bw [] b = (0, b)"
| "bit_put_levels L bw (l # ls) b =
     (case BitWriter_PutValue L l bw b of
        (False, b') \<Rightarrow> (0, b')
      | (True, b') \<Rightarrow> (case bit_put_levels L bw ls b' of (n, b'') \<Rightarrow> (n + 1, b'')))"

definition LevelEncoder_Encode ::
  "('r, 'b) level_ops \<Rightarrow> int \<Rightarrow> level list \<Rightarrow> ('r, 'b) LevelEncoder
    \<Rightarrow> (error + int) \<times> ('r, 'b) LevelEncoder" where
  "LevelEncoder_Encode L batch_size lvls le =
     (if rle_encoder le = None \<and> bit_packed_encoder le = None
      then (Inl (ParquetException ''Level encoders are not initialized.''), le)
      else if level_encoding le = RLE
      then (case rle_encoder le of
              None \<Rightarrow> (Inl (Crash ''rle_encoder_ is null''), le)
            | Some r \<Rightarrow>
                (case rle_put_levels L (take (nat batch_size) lvls) r of
                   (n, r1) \<Rightarrow>
                     (let r2 = RleEncoder_Flush L r1
                      in (Inr n, le\<lparr>rle_encoder := Some r2,
                                     rle_length := RleEncoder_len L r2\<rparr>))))
      else (case bit_packed_encoder le of
              None \<Rightarrow> (Inl (Crash ''bit_packed_encoder_ is null''), le)
            | Some b \<Rightarrow>
                (case bit_put_levels L (bit_width le) (take (nat batch_size) lvls) b of
                   (n, b1) \<Rightarrow>
                     (Inr n, le\<lparr>bit_packed_encoder := Some (BitWriter_Flush L b1)\<rparr>))))"

text \<open>
  Modelled from the spec: \<^verbatim>\<open>LevelEncoder::len\<close>, declared in \<^verbatim>\<open>column_writer.h\<close>,
  which is not among the sources. Section 4.1: the length of the encoded stream, for RLE.
\<close>

definition LevelEncoder_len :: "('r, 'b) LevelEncoder \<Rightarrow> int" where
  "LevelEncoder_len le = rle_length le"

subsection \<open>ColumnWriter: the state\<close>

text \<open>
  The members of \<^verbatim>\<open>ColumnWriter\<close> and \<^verbatim>\<open>TypedColumnWriter\<close>, under their names
  without the trailing underscore. The two level sinks hold the levels whose raw bytes
  the source appends and later reads back through a \<^verbatim>\<open>reinterpret_cast\<close>. \<open>pager\<close> is
  what the page writer has received; \<open>metadata_statistics\<close> is what
  \<^verbatim>\<open>metadata_->SetStatistics\<close> was last given.
\<close>

record ('e, 's, 'es, 'r, 'b) ColumnWriter =
  descr :: ColumnDescriptor
  pager :: "'es sink_event list"
  metadata_statistics :: "'es option"
  expected_rows :: int
  has_dictionary :: bool
  encoding :: Encoding
  properties :: WriterProperties
  num_buffered_values :: int
  num_buffered_encoded_values :: int
  num_rows :: int
  total_bytes_written :: int
  closed :: bool
  fallback :: bool
  definition_levels_sink :: "level list"
  repetition_levels_sink :: "level list"
  definition_levels_rle :: "byte list"
  repetition_levels_rle :: "byte list"
  uncompressed_data :: "byte list"
  compressed_data :: "byte list"
  level_encoder :: "('r, 'b) LevelEncoder"
  data_pages :: "'es CompressedDataPage list"
  current_encoder :: 'e
  page_statistics :: "'s option"
  chunk_statistics :: "'s option"

text \<open>Outcomes: an exception or a value, with the writer after the call.\<close>

type_synonym ('a, 'w) outcome = "(error + 'a) \<times> 'w"

definition and_then :: "('a, 'w) outcome \<Rightarrow> ('a \<Rightarrow> 'w \<Rightarrow> ('c, 'w) outcome) \<Rightarrow> ('c, 'w) outcome" where
  "and_then m f = (case m of (Inl e, w) \<Rightarrow> (Inl e, w) | (Inr a, w) \<Rightarrow> f a w)"

text \<open>
  The constructor of the base class, with the members of the typed writer (the encoder
  and the two statistics) passed in.
\<close>

definition ColumnWriter_new ::
  "ColumnDescriptor \<Rightarrow> int \<Rightarrow> bool \<Rightarrow> Encoding \<Rightarrow> WriterProperties \<Rightarrow> 'e \<Rightarrow> 's option
    \<Rightarrow> ('e, 's, 'es, 'r, 'b) ColumnWriter" where
  "ColumnWriter_new d rows has_dict enc props e st =
     \<lparr>descr = d, pager = [], metadata_statistics = None, expected_rows = rows,
      has_dictionary = has_dict, encoding = enc, properties = props,
      num_buffered_values = 0, num_buffered_encoded_values = 0, num_rows = 0,
      total_bytes_written = 0, closed = False, fallback = False,
      definition_levels_sink = [], repetition_levels_sink = [],
      definition_levels_rle = [], repetition_levels_rle = [],
      uncompressed_data = [], compressed_data = [],
      level_encoder = LevelEncoder_new, data_pages = [],
      current_encoder = e, page_statistics = st, chunk_statistics = st\<rparr>"

definition InitSinks ::
  "('e, 's, 'es, 'r, 'b) ColumnWriter \<Rightarrow> ('e, 's, 'es, 'r, 'b) ColumnWriter" where
  "InitSinks w = w\<lparr>definition_levels_sink := [], repetition_levels_sink := []\<rparr>"

definition WriteDefinitionLevels ::
  "nat \<Rightarrow> level list \<Rightarrow> ('e, 's, 'es, 'r, 'b) ColumnWriter \<Rightarrow> ('e, 's, 'es, 'r, 'b) ColumnWriter" where
  "WriteDefinitionLevels num_levels lvls w =
     w\<lparr>definition_levels_sink := definition_levels_sink w @ take num_levels lvls\<rparr>"

definition WriteRepetitionLevels ::
  "nat \<Rightarrow> level list \<Rightarrow> ('e, 's, 'es, 'r, 'b) ColumnWriter \<Rightarrow> ('e, 's, 'es, 'r, 'b) ColumnWriter" where
  "WriteRepetitionLevels num_levels lvls w =
     w\<lparr>repetition_levels_sink := repetition_levels_sink w @ take num_levels lvls\<rparr>"

subsection \<open>ColumnWriter: cutting a page\<close>

text \<open>
  \<open>RleEncodeLevels\<close> returns the encoded size and the destination buffer it filled: the
  length word, then the encoder's bytes. The caller stores the buffer in the member whose
  address it passed.
\<close>

definition RleEncodeLevels ::
  "('v, 'e, 's, 'es, 'r, 'b) collaborators \<Rightarrow> level list \<Rightarrow> level
    \<Rightarrow> ('e, 's, 'es, 'r, 'b) ColumnWriter
    \<Rightarrow> (int \<times> byte list, ('e, 's, 'es, 'r, 'b) ColumnWriter) outcome" where
  "RleEncodeLevels X src_buffer max_level w =
     (case LevelEncoder_MaxBufferSize (levels X) RLE max_level
             (static_cast_int (num_buffered_values w)) of
        Inl e \<Rightarrow> (Inl e, w)
      | Inr m \<Rightarrow>
          (let rle_size = m + 4
           in case LevelEncoder_Init (levels X) RLE max_level
                     (static_cast_int (num_buffered_values w))
                     (static_cast_int (static_cast_int rle_size - 4)) (level_encoder w) of
                (Inl e, le) \<Rightarrow> (Inl e, w\<lparr>level_encoder := le\<rparr>)
              | (Inr _, le) \<Rightarrow>
                  (case LevelEncoder_Encode (levels X)
                          (static_cast_int (num_buffered_values w)) src_buffer le of
                     (Inl e, le1) \<Rightarrow> (Inl e, w\<lparr>level_encoder := le1\<rparr>)
                   | (Inr encoded, le1) \<Rightarrow>
                       (let dest = store_int32 (LevelEncoder_len le1)
                                   @ (case rle_encoder le1 of None \<Rightarrow> []
                                      | Some r \<Rightarrow> RleEncoder_bytes (levels X) r);
                            encoded_size = LevelEncoder_len le1 + 4
                        in (Inr (encoded_size, dest), w\<lparr>level_encoder := le1\<rparr>)))))"

text \<open>
  Modelled from the spec: \<^verbatim>\<open>GetValuesBuffer\<close>, defined in \<^verbatim>\<open>column_writer.h\<close>, which
  is not among the sources. Section 4.4, step 1 of the page cut: the flushed value buffer
  of the encoder.
\<close>

definition GetValuesBuffer ::
  "('v, 'e, 's, 'es, 'r, 'b) collaborators \<Rightarrow> ('e, 's, 'es, 'r, 'b) ColumnWriter
    \<Rightarrow> byte list \<times> ('e, 's, 'es, 'r, 'b) ColumnWriter" where
  "GetValuesBuffer X w =
     (case FlushValues (encoders X) (current_encoder w) of
        (buf, e) \<Rightarrow> (buf, w\<lparr>current_encoder := e\<rparr>))"

definition GetPageStatistics ::
  "('v, 'e, 's, 'es, 'r, 'b) collaborators \<Rightarrow> ('e, 's, 'es, 'r, 'b) ColumnWriter \<Rightarrow> 'es" where
  "GetPageStatistics X w =
     (case page_statistics w of
        None \<Rightarrow> EncodedStatistics_new (stats X)
      | Some p \<Rightarrow> Encode (stats X) p)"

definition GetChunkStatistics ::
  "('v, 'e, 's, 'es, 'r, 'b) collaborators \<Rightarrow> ('e, 's, 'es, 'r, 'b) ColumnWriter \<Rightarrow> 'es" where
  "GetChunkStatistics X w =
     (case chunk_statistics w of
        None \<Rightarrow> EncodedStatistics_new (stats X)
      | Some c \<Rightarrow> Encode (stats X) c)"

definition ResetPageStatistics ::
  "('v, 'e, 's, 'es, 'r, 'b) collaborators \<Rightarrow> ('e, 's, 'es, 'r, 'b) ColumnWriter
    \<Rightarrow> (unit, ('e, 's, 'es, 'r, 'b) ColumnWriter) outcome" where
  "ResetPageStatistics X w =
     (case chunk_statistics w of
        None \<Rightarrow> (Inr (), w)
      | Some c \<Rightarrow>
          (case page_statistics w of
             None \<Rightarrow> (Inl (Crash ''page_statistics_ is null''), w)
           | Some p \<Rightarrow>
               (Inr (), w\<lparr>chunk_statistics := Some (Merge (stats X) c p),
                          page_statistics := Some (Reset (stats X) p)\<rparr>)))"

definition WriteDataPage ::
  "('v, 'e, 's, 'es, 'r, 'b) collaborators \<Rightarrow> 'es CompressedDataPage
    \<Rightarrow> ('e, 's, 'es, 'r, 'b) ColumnWriter \<Rightarrow> ('e, 's, 'es, 'r, 'b) ColumnWriter" where
  "WriteDataPage X page w =
     w\<lparr>total_bytes_written := total_bytes_written w + pager_WriteDataPage (pager_of X) page,
       pager := pager w @ [DataPageWritten page]\<rparr>"

text \<open>
  The page descriptor \<open>AddDataPage\<close> constructs, given the value payload, the two encoded
  sizes and the writer that holds the two encoded level buffers.
\<close>

definition assembled ::
  "('v, 'e, 's, 'es, 'r, 'b) collaborators \<Rightarrow> byte list \<Rightarrow> int \<Rightarrow> int
    \<Rightarrow> ('e, 's, 'es, 'r, 'b) ColumnWriter \<Rightarrow> 'es CompressedDataPage" where
  "assembled X vals ds rs w =
     \<lparr>page_buffer =
        (if has_compressor (pager_of X)
         then Compress (pager_of X)
                (take (nat rs) (repetition_levels_rle w)
                 @ take (nat ds) (definition_levels_rle w) @ vals)
         else take (nat rs) (repetition_levels_rle w)
              @ take (nat ds) (definition_levels_rle w) @ vals),
      page_num_values = static_cast_int (num_buffered_values w),
      page_encoding = encoding w,
      definition_level_encoding = RLE,
      repetition_level_encoding = RLE,
      page_uncompressed_size = ds + rs + int (length vals),
      page_statistics_of = GetPageStatistics X w\<rparr>"

text \<open>
  The part of \<open>AddDataPage\<close> after the two level encodings, given their sizes: the
  concatenation by three \<^verbatim>\<open>memcpy\<close>, the statistics, the compression, and the page
  either queued or written.
\<close>

definition assemble_page ::
  "('v, 'e, 's, 'es, 'r, 'b) collaborators \<Rightarrow> byte list \<Rightarrow> int \<Rightarrow> int
    \<Rightarrow> ('e, 's, 'es, 'r, 'b) ColumnWriter
    \<Rightarrow> (unit, ('e, 's, 'es, 'r, 'b) ColumnWriter) outcome" where
  "assemble_page X vals definition_levels_rle_size repetition_levels_rle_size w =
     (let uncompressed_size =
            definition_levels_rle_size + repetition_levels_rle_size + int (length vals);
          w1 = w\<lparr>uncompressed_data :=
                   take (nat repetition_levels_rle_size) (repetition_levels_rle w)
                   @ take (nat definition_levels_rle_size) (definition_levels_rle w)
                   @ vals\<rparr>;
          page_stats = GetPageStatistics X w1
      in and_then (ResetPageStatistics X w1) (\<lambda>_ w2.
           (let w3 = (if has_compressor (pager_of X)
                      then w2\<lparr>compressed_data := Compress (pager_of X) (uncompressed_data w2)\<rparr>
                      else w2);
                compressed = (if has_compressor (pager_of X) then compressed_data w3
                              else uncompressed_data w3);
                page = \<lparr>page_buffer = compressed,
                        page_num_values = static_cast_int (num_buffered_values w3),
                        page_encoding = encoding w3,
                        definition_level_encoding = RLE,
                        repetition_level_encoding = RLE,
                        page_uncompressed_size = uncompressed_size,
                        page_statistics_of = page_stats\<rparr>;
                w4 = (if has_dictionary w3 \<and> \<not> fallback w3
                      then w3\<lparr>data_pages := data_pages w3 @ [page]\<rparr>
                      else WriteDataPage X page w3)
            in (Inr (), (InitSinks w4)\<lparr>num_buffered_values := 0,
                                        num_buffered_encoded_values := 0\<rparr>))))"

text \<open>
  The part of \<open>AddDataPage\<close> that encodes the levels: the definition levels first, then
  the repetition levels, each only when its maximum level is positive. It returns the two
  encoded sizes.
\<close>

definition encode_levels ::
  "('v, 'e, 's, 'es, 'r, 'b) collaborators \<Rightarrow> ('e, 's, 'es, 'r, 'b) ColumnWriter
    \<Rightarrow> (int \<times> int, ('e, 's, 'es, 'r, 'b) ColumnWriter) outcome" where
  "encode_levels X w =
     and_then
       (if 0 < sint (max_definition_level (descr w))
        then and_then
               (RleEncodeLevels X (definition_levels_sink w)
                  (max_definition_level (descr w)) w)
               (\<lambda>(sz, dest) w'. (Inr sz, w'\<lparr>definition_levels_rle := dest\<rparr>))
        else (Inr 0, w))
       (\<lambda>definition_levels_rle_size w1.
          and_then
            (if 0 < sint (max_repetition_level (descr w1))
             then and_then
                    (RleEncodeLevels X (repetition_levels_sink w1)
                       (max_repetition_level (descr w1)) w1)
                    (\<lambda>(sz, dest) w'. (Inr sz, w'\<lparr>repetition_levels_rle := dest\<rparr>))
             else (Inr 0, w1))
            (\<lambda>repetition_levels_rle_size w2.
               (Inr (definition_levels_rle_size, repetition_levels_rle_size), w2)))"

definition AddDataPage ::
  "('v, 'e, 's, 'es, 'r, 'b) collaborators \<Rightarrow> ('e, 's, 'es, 'r, 'b) ColumnWriter
    \<Rightarrow> (unit, ('e, 's, 'es, 'r, 'b) ColumnWriter) outcome" where
  "AddDataPage X w =
     (case GetValuesBuffer X w of
        (vals, w0) \<Rightarrow>
          and_then (encode_levels X w0)
            (\<lambda>(definition_levels_rle_size, repetition_levels_rle_size) w2.
               assemble_page X vals definition_levels_rle_size
                 repetition_levels_rle_size w2))"

subsection \<open>ColumnWriter: flushing and closing\<close>

definition WriteDictionaryPage ::
  "('v, 'e, 's, 'es, 'r, 'b) collaborators \<Rightarrow> ('e, 's, 'es, 'r, 'b) ColumnWriter
    \<Rightarrow> ('e, 's, 'es, 'r, 'b) ColumnWriter" where
  "WriteDictionaryPage X w =
     (let buffer = WriteDict (encoders X) (current_encoder w);
          e1 = FreeAll (encoders X) (current_encoder w);
          page = \<lparr>dict_buffer = buffer,
                  dict_num_values = num_entries (encoders X) e1,
                  dict_encoding = dictionary_index_encoding (properties w)\<rparr>
      in w\<lparr>current_encoder := e1,
           total_bytes_written :=
             total_bytes_written w + pager_WriteDictionaryPage (pager_of X) page,
           pager := pager w @ [DictionaryPageWritten page]\<rparr>)"

definition FlushBufferedDataPages ::
  "('v, 'e, 's, 'es, 'r, 'b) collaborators \<Rightarrow> ('e, 's, 'es, 'r, 'b) ColumnWriter
    \<Rightarrow> (unit, ('e, 's, 'es, 'r, 'b) ColumnWriter) outcome" where
  "FlushBufferedDataPages X w =
     and_then (if 0 < num_buffered_values w then AddDataPage X w else (Inr (), w))
       (\<lambda>_ w1. (Inr (), (fold (WriteDataPage X) (data_pages w1) w1)\<lparr>data_pages := []\<rparr>))"

definition rows_mismatch_message :: "int \<Rightarrow> int \<Rightarrow> string" where
  "rows_mismatch_message rows expected =
     ''Written rows: '' @ show_int rows @ '' != expected rows: '' @ show_int expected
     @ ''in the current column chunk''"

text \<open>
  The body of \<^verbatim>\<open>if (!closed_)\<close> in \<open>Close\<close>: the dictionary page if it is still
  due, the buffered pages, the chunk statistics to the metadata, and the page writer
  closed.
\<close>

definition close_chunk ::
  "('v, 'e, 's, 'es, 'r, 'b) collaborators \<Rightarrow> ('e, 's, 'es, 'r, 'b) ColumnWriter
    \<Rightarrow> (unit, ('e, 's, 'es, 'r, 'b) ColumnWriter) outcome" where
  "close_chunk X w =
     (let w0 = w\<lparr>closed := True\<rparr>;
          w1 = (if has_dictionary w0 \<and> \<not> fallback w0
                then WriteDictionaryPage X w0 else w0)
      in and_then (FlushBufferedDataPages X w1) (\<lambda>_ w2.
           (let chunk_stats = GetChunkStatistics X w2;
                w3 = (if is_set (stats X) chunk_stats
                      then w2\<lparr>metadata_statistics := Some chunk_stats\<rparr> else w2)
            in (Inr (), w3\<lparr>pager := pager w3
                             @ [PagerClosed (has_dictionary w3) (fallback w3)]\<rparr>))))"

definition Close ::
  "('v, 'e, 's, 'es, 'r, 'b) collaborators \<Rightarrow> ('e, 's, 'es, 'r, 'b) ColumnWriter
    \<Rightarrow> (int, ('e, 's, 'es, 'r, 'b) ColumnWriter) outcome" where
  "Close X w =
     and_then (if \<not> closed w then close_chunk X w else (Inr (), w))
       (\<lambda>_ w4.
          if num_rows w4 \<noteq> expected_rows w4
          then (Inl (ParquetException
                       (rows_mismatch_message (num_rows w4) (expected_rows w4))), w4)
          else (Inr (total_bytes_written w4), w4))"

subsection \<open>TypedColumnWriter\<close>

definition TypedColumnWriter_new ::
  "('v, 'e, 's, 'es, 'r, 'b) collaborators \<Rightarrow> ColumnDescriptor \<Rightarrow> int \<Rightarrow> Encoding
    \<Rightarrow> WriterProperties \<Rightarrow> error + ('e, 's, 'es, 'r, 'b) ColumnWriter" where
  "TypedColumnWriter_new X d rows enc props =
     (let st = (if statistics_enabled props (path d)
                then Some (TypedStats_new (stats X)) else None);
          base = (\<lambda>e. ColumnWriter_new d rows
                         (enc = PLAIN_DICTIONARY \<or> enc = RLE_DICTIONARY) enc props e st)
      in case enc of
           PLAIN \<Rightarrow> Inr (base (PlainEncoder_new (encoders X)))
         | PLAIN_DICTIONARY \<Rightarrow> Inr (base (DictEncoder_new (encoders X)))
         | RLE_DICTIONARY \<Rightarrow> Inr (base (DictEncoder_new (encoders X)))
         | _ \<Rightarrow> Inl (NYI ''Selected encoding is not supported''))"

definition CheckDictionarySizeLimit ::
  "('v, 'e, 's, 'es, 'r, 'b) collaborators \<Rightarrow> ('e, 's, 'es, 'r, 'b) ColumnWriter
    \<Rightarrow> (unit, ('e, 's, 'es, 'r, 'b) ColumnWriter) outcome" where
  "CheckDictionarySizeLimit X w =
     (if dict_encoded_size (encoders X) (current_encoder w)
           \<ge> dictionary_pagesize_limit (properties w)
      then and_then (FlushBufferedDataPages X (WriteDictionaryPage X w)) (\<lambda>_ w1.
             (Inr (), w1\<lparr>fallback := True,
                        current_encoder := PlainEncoder_new (encoders X),
                        encoding := PLAIN\<rparr>))
      else (Inr (), w))"


definition WriteValues ::
  "('v, 'e, 's, 'es, 'r, 'b) collaborators \<Rightarrow> int \<Rightarrow> 'v list
    \<Rightarrow> ('e, 's, 'es, 'r, 'b) ColumnWriter \<Rightarrow> ('e, 's, 'es, 'r, 'b) ColumnWriter" where
  "WriteValues X n vals w =
     w\<lparr>current_encoder := Put (encoders X) vals (static_cast_int n) (current_encoder w)\<rparr>"

definition WriteValuesSpaced ::
  "('v, 'e, 's, 'es, 'r, 'b) collaborators \<Rightarrow> int \<Rightarrow> byte list \<Rightarrow> int \<Rightarrow> 'v list
    \<Rightarrow> ('e, 's, 'es, 'r, 'b) ColumnWriter \<Rightarrow> ('e, 's, 'es, 'r, 'b) ColumnWriter" where
  "WriteValuesSpaced X n valid_bits valid_bits_offset vals w =
     w\<lparr>current_encoder :=
         PutSpaced (encoders X) vals (static_cast_int n) valid_bits valid_bits_offset
           (current_encoder w)\<rparr>"

subsection \<open>Writing batches\<close>

text \<open>
  The tail both mini-batch writers share after the values are put: the buffered
  counters, the page cut on the encoder's estimate, the dictionary size check.
\<close>

definition after_values ::
  "('v, 'e, 's, 'es, 'r, 'b) collaborators \<Rightarrow> nat \<Rightarrow> int
    \<Rightarrow> ('e, 's, 'es, 'r, 'b) ColumnWriter
    \<Rightarrow> (unit, ('e, 's, 'es, 'r, 'b) ColumnWriter) outcome" where
  "after_values X num_values values_to_write w =
     (let w1 = w\<lparr>num_buffered_values := num_buffered_values w + int num_values,
                 num_buffered_encoded_values :=
                   num_buffered_encoded_values w + values_to_write\<rparr>
      in and_then
           (if EstimatedDataEncodedSize (encoders X) (current_encoder w1)
                 \<ge> data_pagesize (properties w1)
            then AddDataPage X w1 else (Inr (), w1))
           (\<lambda>_ w2. if has_dictionary w2 \<and> \<not> fallback w2
                    then CheckDictionarySizeLimit X w2 else (Inr (), w2)))"

text \<open>
  The rows of a mini-batch, which both mini-batch writers count alike: from the
  repetition levels, which then go to their sink, or from \<open>num_values\<close>.
\<close>

definition count_rows ::
  "nat \<Rightarrow> level list \<Rightarrow> ('e, 's, 'es, 'r, 'b) ColumnWriter \<Rightarrow> ('e, 's, 'es, 'r, 'b) ColumnWriter" where
  "count_rows num_values rep_levels w =
     (if 0 < sint (max_repetition_level (descr w))
      then WriteRepetitionLevels num_values rep_levels
             (w\<lparr>num_rows := num_rows w
                   + int (length (filter (\<lambda>l. l = 0) (take num_values rep_levels)))\<rparr>)
      else w\<lparr>num_rows := num_rows w + static_cast_int (int num_values)\<rparr>)"

definition rows_exceeded :: error where
  "rows_exceeded = ParquetException ''More rows were written in the column chunk than expected''"

text \<open>
  The levels of a mini-batch: the definition levels go to their sink when the column has
  any, then the rows are counted.
\<close>

definition write_levels ::
  "nat \<Rightarrow> level list \<Rightarrow> level list \<Rightarrow> ('e, 's, 'es, 'r, 'b) ColumnWriter
    \<Rightarrow> ('e, 's, 'es, 'r, 'b) ColumnWriter" where
  "write_levels num_values def_levels rep_levels w =
     count_rows num_values rep_levels
       (if 0 < sint (max_definition_level (descr w))
        then WriteDefinitionLevels num_values def_levels w else w)"

text \<open>The two updates of the page statistics, made when the pointer is not null.\<close>

definition update_page_statistics ::
  "('v, 'e, 's, 'es, 'r, 'b) collaborators \<Rightarrow> 'v list \<Rightarrow> int \<Rightarrow> int
    \<Rightarrow> ('e, 's, 'es, 'r, 'b) ColumnWriter \<Rightarrow> ('e, 's, 'es, 'r, 'b) ColumnWriter" where
  "update_page_statistics X vals non_null nulls w =
     (case page_statistics w of
        None \<Rightarrow> w
      | Some p \<Rightarrow> w\<lparr>page_statistics := Some (Update (stats X) vals non_null nulls p)\<rparr>)"

definition update_page_statistics_spaced ::
  "('v, 'e, 's, 'es, 'r, 'b) collaborators \<Rightarrow> 'v list \<Rightarrow> byte list \<Rightarrow> int \<Rightarrow> int \<Rightarrow> int
    \<Rightarrow> ('e, 's, 'es, 'r, 'b) ColumnWriter \<Rightarrow> ('e, 's, 'es, 'r, 'b) ColumnWriter" where
  "update_page_statistics_spaced X vals valid_bits valid_bits_offset non_null nulls w =
     (case page_statistics w of
        None \<Rightarrow> w
      | Some p \<Rightarrow>
          w\<lparr>page_statistics :=
              Some (UpdateSpaced (stats X) vals valid_bits valid_bits_offset non_null nulls p)\<rparr>)"

text \<open>
  The two counting loops over the definition levels: the levels equal to the maximum
  (the values to write), and the levels that are at least the minimal spaced level. A
  column without definition levels writes all its values.
\<close>

definition count_values_to_write :: "ColumnDescriptor \<Rightarrow> nat \<Rightarrow> level list \<Rightarrow> int" where
  "count_values_to_write dsc num_values def_levels =
     (if 0 < sint (max_definition_level dsc)
      then int (length (filter (\<lambda>l. l = max_definition_level dsc)
                          (take num_values def_levels)))
      else int num_values)"

definition count_spaced_values_to_write ::
  "ColumnDescriptor \<Rightarrow> nat \<Rightarrow> level list \<Rightarrow> int" where
  "count_spaced_values_to_write dsc num_values def_levels =
     (let min_spaced_def_level =
            (if is_optional dsc then max_definition_level dsc - 1
             else max_definition_level dsc)
      in if 0 < sint (max_definition_level dsc)
         then int (length (filter (\<lambda>l. sint min_spaced_def_level \<le> sint l)
                             (take num_values def_levels)))
         else int num_values)"

definition WriteMiniBatch ::
  "('v, 'e, 's, 'es, 'r, 'b) collaborators \<Rightarrow> nat \<Rightarrow> level list \<Rightarrow> level list \<Rightarrow> 'v list
    \<Rightarrow> ('e, 's, 'es, 'r, 'b) ColumnWriter
    \<Rightarrow> (int, ('e, 's, 'es, 'r, 'b) ColumnWriter) outcome" where
  "WriteMiniBatch X num_values def_levels rep_levels vals w =
     (let values_to_write = count_values_to_write (descr w) num_values def_levels;
          w2 = write_levels num_values def_levels rep_levels w
      in if num_rows w2 > expected_rows w2 then (Inl rows_exceeded, w2)
         else
           (let w3 = WriteValues X values_to_write vals w2;
                w4 = update_page_statistics X vals values_to_write
                       (int num_values - values_to_write) w3
            in and_then (after_values X num_values values_to_write w4)
                 (\<lambda>_ w5. (Inr values_to_write, w5))))"

text \<open>The values of a spaced mini-batch go to the encoder spaced for an optional field.\<close>

definition put_spaced ::
  "('v, 'e, 's, 'es, 'r, 'b) collaborators \<Rightarrow> int \<Rightarrow> int \<Rightarrow> byte list \<Rightarrow> int \<Rightarrow> 'v list
    \<Rightarrow> ('e, 's, 'es, 'r, 'b) ColumnWriter \<Rightarrow> ('e, 's, 'es, 'r, 'b) ColumnWriter" where
  "put_spaced X spaced_values_to_write values_to_write valid_bits valid_bits_offset vals w =
     (if is_optional (descr w)
      then WriteValuesSpaced X spaced_values_to_write valid_bits valid_bits_offset vals w
      else WriteValues X values_to_write vals w)"

text \<open>
  The spaced writer returns \<open>values_to_write\<close> and, through \<^verbatim>\<open>num_spaced_written\<close>,
  the number of spaced values; the pointer is written only when no exception is thrown.
\<close>

definition WriteMiniBatchSpaced ::
  "('v, 'e, 's, 'es, 'r, 'b) collaborators \<Rightarrow> nat \<Rightarrow> level list \<Rightarrow> level list
    \<Rightarrow> byte list \<Rightarrow> int \<Rightarrow> 'v list \<Rightarrow> ('e, 's, 'es, 'r, 'b) ColumnWriter
    \<Rightarrow> (int \<times> int, ('e, 's, 'es, 'r, 'b) ColumnWriter) outcome" where
  "WriteMiniBatchSpaced X num_values def_levels rep_levels valid_bits valid_bits_offset vals w =
     (let values_to_write = count_values_to_write (descr w) num_values def_levels;
          spaced_values_to_write =
            count_spaced_values_to_write (descr w) num_values def_levels;
          w2 = write_levels num_values def_levels rep_levels w
      in if num_rows w2 > expected_rows w2 then (Inl rows_exceeded, w2)
         else
           (let w3 = put_spaced X spaced_values_to_write values_to_write valid_bits
                       valid_bits_offset vals w2;
                w4 = update_page_statistics_spaced X vals valid_bits valid_bits_offset
                       values_to_write (int num_values - values_to_write) w3
            in and_then (after_values X num_values values_to_write w4)
                 (\<lambda>_ w5. (Inr (values_to_write, spaced_values_to_write), w5))))"

text \<open>
  The loop of \<open>WriteBatch\<close> over the full mini-batches, from \<open>round\<close> on; it returns the
  value offset it reached.
\<close>

function WriteBatch_rounds ::
  "('v, 'e, 's, 'es, 'r, 'b) collaborators \<Rightarrow> int \<Rightarrow> int \<Rightarrow> level list \<Rightarrow> level list
    \<Rightarrow> 'v list \<Rightarrow> int \<Rightarrow> int \<Rightarrow> ('e, 's, 'es, 'r, 'b) ColumnWriter
    \<Rightarrow> (int, ('e, 's, 'es, 'r, 'b) ColumnWriter) outcome" where
  "WriteBatch_rounds X batch_size num_batches def_levels rep_levels vals round value_offset w =
     (if round < num_batches
      then (let offset = round * batch_size
            in case WriteMiniBatch X (nat batch_size) (drop (nat offset) def_levels)
                      (drop (nat offset) rep_levels) (drop (nat value_offset) vals) w of
                 (Inl e, w') \<Rightarrow> (Inl e, w')
               | (Inr num_values, w') \<Rightarrow>
                   WriteBatch_rounds X batch_size num_batches def_levels rep_levels vals
                     (round + 1) (value_offset + num_values) w')
      else (Inr value_offset, w))"
  by pat_completeness auto
termination
  by (relation "measure (\<lambda>(X, bs, nb, d, r, v, round, vo, w). nat (nb - round))") auto

declare WriteBatch_rounds.simps [simp del]

definition WriteBatch ::
  "('v, 'e, 's, 'es, 'r, 'b) collaborators \<Rightarrow> nat \<Rightarrow> level list \<Rightarrow> level list \<Rightarrow> 'v list
    \<Rightarrow> ('e, 's, 'es, 'r, 'b) ColumnWriter
    \<Rightarrow> (unit, ('e, 's, 'es, 'r, 'b) ColumnWriter) outcome" where
  "WriteBatch X num_values def_levels rep_levels vals w =
     (let batch_size = write_batch_size (properties w)
      in if batch_size = 0 then (Inl (Crash ''division by zero''), w)
         else
           (let num_batches = static_cast_int (cpp_div (int num_values) batch_size);
                num_remaining = cpp_mod (int num_values) batch_size
            in and_then
                 (WriteBatch_rounds X batch_size num_batches def_levels rep_levels vals 0 0 w)
                 (\<lambda>value_offset w1.
                    (let offset = num_batches * batch_size
                     in and_then
                          (WriteMiniBatch X (nat num_remaining) (drop (nat offset) def_levels)
                             (drop (nat offset) rep_levels) (drop (nat value_offset) vals) w1)
                          (\<lambda>_ w2. (Inr (), w2))))))"

function WriteBatchSpaced_rounds ::
  "('v, 'e, 's, 'es, 'r, 'b) collaborators \<Rightarrow> int \<Rightarrow> int \<Rightarrow> level list \<Rightarrow> level list
    \<Rightarrow> byte list \<Rightarrow> int \<Rightarrow> 'v list \<Rightarrow> int \<Rightarrow> int \<Rightarrow> ('e, 's, 'es, 'r, 'b) ColumnWriter
    \<Rightarrow> (int, ('e, 's, 'es, 'r, 'b) ColumnWriter) outcome" where
  "WriteBatchSpaced_rounds X batch_size num_batches def_levels rep_levels valid_bits
       valid_bits_offset vals round values_offset w =
     (if round < num_batches
      then (let offset = round * batch_size
            in case WriteMiniBatchSpaced X (nat batch_size) (drop (nat offset) def_levels)
                      (drop (nat offset) rep_levels) valid_bits
                      (valid_bits_offset + values_offset) (drop (nat values_offset) vals) w of
                 (Inl e, w') \<Rightarrow> (Inl e, w')
               | (Inr (_, num_spaced_written), w') \<Rightarrow>
                   WriteBatchSpaced_rounds X batch_size num_batches def_levels rep_levels
                     valid_bits valid_bits_offset vals (round + 1)
                     (values_offset + num_spaced_written) w')
      else (Inr values_offset, w))"
  by pat_completeness auto
termination
  by (relation "measure (\<lambda>(X, bs, nb, d, r, vb, vbo, v, round, vo, w). nat (nb - round))") auto

declare WriteBatchSpaced_rounds.simps [simp del]

definition WriteBatchSpaced ::
  "('v, 'e, 's, 'es, 'r, 'b) collaborators \<Rightarrow> nat \<Rightarrow> level list \<Rightarrow> level list
    \<Rightarrow> byte list \<Rightarrow> int \<Rightarrow> 'v list \<Rightarrow> ('e, 's, 'es, 'r, 'b) ColumnWriter
    \<Rightarrow> (unit, ('e, 's, 'es, 'r, 'b) ColumnWriter) outcome" where
  "WriteBatchSpaced X num_values def_levels rep_levels valid_bits valid_bits_offset vals w =
     (let batch_size = write_batch_size (properties w)
      in if batch_size = 0 then (Inl (Crash ''division by zero''), w)
         else
           (let num_batches = static_cast_int (cpp_div (int num_values) batch_size);
                num_remaining = cpp_mod (int num_values) batch_size
            in and_then
                 (WriteBatchSpaced_rounds X batch_size num_batches def_levels rep_levels
                    valid_bits valid_bits_offset vals 0 0 w)
                 (\<lambda>values_offset w1.
                    (let offset = num_batches * batch_size
                     in and_then
                          (WriteMiniBatchSpaced X (nat num_remaining)
                             (drop (nat offset) def_levels) (drop (nat offset) rep_levels)
                             valid_bits (valid_bits_offset + values_offset)
                             (drop (nat values_offset) vals) w1)
                          (\<lambda>_ w2. (Inr (), w2))))))"

subsection \<open>Sequences of calls\<close>

datatype 'v mini_batch =
    MiniBatch nat "level list" "level list" "'v list"
  | MiniBatchSpaced nat "level list" "level list" "byte list" int "'v list"

fun batch_num_values :: "'v mini_batch \<Rightarrow> nat" where
  "batch_num_values (MiniBatch n d r v) = n"
| "batch_num_values (MiniBatchSpaced n d r vb off v) = n"

fun batch_rep_levels :: "'v mini_batch \<Rightarrow> level list" where
  "batch_rep_levels (MiniBatch n d r v) = r"
| "batch_rep_levels (MiniBatchSpaced n d r vb off v) = r"

fun batch_def_levels :: "'v mini_batch \<Rightarrow> level list" where
  "batch_def_levels (MiniBatch n d r v) = d"
| "batch_def_levels (MiniBatchSpaced n d r vb off v) = d"

fun write_mini_batch ::
  "('v, 'e, 's, 'es, 'r, 'b) collaborators \<Rightarrow> 'v mini_batch
    \<Rightarrow> ('e, 's, 'es, 'r, 'b) ColumnWriter
    \<Rightarrow> (unit, ('e, 's, 'es, 'r, 'b) ColumnWriter) outcome" where
  "write_mini_batch X (MiniBatch n d r v) w =
     and_then (WriteMiniBatch X n d r v w) (\<lambda>_ w'. (Inr (), w'))"
| "write_mini_batch X (MiniBatchSpaced n d r vb off v) w =
     and_then (WriteMiniBatchSpaced X n d r vb off v w) (\<lambda>_ w'. (Inr (), w'))"

text \<open>
  The writer after a list of mini-batch calls made one after another, whatever each
  returned. A caller that stops at the first exception has made the calls up to and
  including the one that threw: a shorter list.
\<close>

fun after_mini_batches ::
  "('v, 'e, 's, 'es, 'r, 'b) collaborators \<Rightarrow> 'v mini_batch list
    \<Rightarrow> ('e, 's, 'es, 'r, 'b) ColumnWriter \<Rightarrow> ('e, 's, 'es, 'r, 'b) ColumnWriter" where
  "after_mini_batches X [] w = w"
| "after_mini_batches X (b # bs) w = after_mini_batches X bs (snd (write_mini_batch X b w))"


subsection \<open>The words of the specification\<close>

text \<open>
  The RLE bytes of a level stream: what Arrow's encoder, created at the bit width of the
  maximum level over the buffer \<open>RleEncodeLevels\<close> sizes for it, holds after it was given
  the first \<open>n\<close> levels and flushed.
\<close>

definition rle_encoder_after ::
  "('r, 'b) level_ops \<Rightarrow> level \<Rightarrow> int \<Rightarrow> level list \<Rightarrow> 'r" where
  "rle_encoder_after L max_level n lvls =
     (let bw = Log2 L (sint max_level + 1);
          cap = RleEncoder_MaxBufferSize L bw n + RleEncoder_MinBufferSize L bw;
          r = RleEncoder_new L (static_cast_int (static_cast_int (cap + 4) - 4)) bw
      in RleEncoder_Flush L (snd (rle_put_levels L (take (nat n) lvls) r)))"

definition rle_encoded_levels ::
  "('r, 'b) level_ops \<Rightarrow> level \<Rightarrow> int \<Rightarrow> level list \<Rightarrow> byte list" where
  "rle_encoded_levels L max_level n lvls =
     RleEncoder_bytes L (rle_encoder_after L max_level n lvls)"

text \<open>
  A level chunk of the page payload: the encoded length in four bytes, low byte first,
  then the RLE bytes; nothing at all when the maximum level is zero.
\<close>

definition u32_le :: "nat \<Rightarrow> byte list" where
  "u32_le n =
     [of_nat (n mod 256), of_nat (n div 256 mod 256), of_nat (n div 65536 mod 256),
      of_nat (n div 16777216 mod 256)]"

definition level_chunk ::
  "('r, 'b) level_ops \<Rightarrow> level \<Rightarrow> int \<Rightarrow> level list \<Rightarrow> byte list" where
  "level_chunk L max_level n lvls =
     (if 0 < sint max_level
      then u32_le (length (rle_encoded_levels L max_level n lvls))
           @ rle_encoded_levels L max_level n lvls
      else [])"

text \<open>The rows a mini-batch adds to \<open>num_rows\<close>, as \<open>count_rows\<close> counts them.\<close>

definition batch_rows :: "level \<Rightarrow> 'v mini_batch \<Rightarrow> int" where
  "batch_rows max_rep b =
     (if 0 < sint max_rep
      then int (length (filter (\<lambda>l. l = 0)
                          (take (batch_num_values b) (batch_rep_levels b))))
      else static_cast_int (int (batch_num_values b)))"



text \<open>Whether a message shows a text: the text occurs in it as a contiguous part.\<close>

fun starts_with :: "string \<Rightarrow> string \<Rightarrow> bool" where
  "starts_with ys [] = True"
| "starts_with [] (x # xs) = False"
| "starts_with (y # ys) (x # xs) = (y = x \<and> starts_with ys xs)"

fun shows_text :: "string \<Rightarrow> string \<Rightarrow> bool" where
  "shows_text [] xs = (xs = [])"
| "shows_text (y # ys) xs = (starts_with (y # ys) xs \<or> shows_text ys xs)"

fun error_message :: "error \<Rightarrow> string" where
  "error_message (ParquetException m) = m"
| "error_message (NYI m) = m"
| "error_message (Crash m) = m"

text \<open>What reached the page writer.\<close>

fun is_dictionary_page :: "'es sink_event \<Rightarrow> bool" where
  "is_dictionary_page (DictionaryPageWritten p) = True"
| "is_dictionary_page e = False"

fun is_data_page :: "'es sink_event \<Rightarrow> bool" where
  "is_data_page (DataPageWritten p) = True"
| "is_data_page e = False"

fun no_dictionary_page :: "'es sink_event list \<Rightarrow> bool" where
  "no_dictionary_page [] = True"
| "no_dictionary_page (e # es) = (\<not> is_dictionary_page e \<and> no_dictionary_page es)"

text \<open>One dictionary page, and it is the first thing the page writer received.\<close>

fun one_dictionary_page_first :: "'es sink_event list \<Rightarrow> bool" where
  "one_dictionary_page_first [] = False"
| "one_dictionary_page_first (e # es) = (is_dictionary_page e \<and> no_dictionary_page es)"

fun data_pages_of :: "'es sink_event list \<Rightarrow> 'es CompressedDataPage list" where
  "data_pages_of [] = []"
| "data_pages_of (DataPageWritten p # es) = p # data_pages_of es"
| "data_pages_of (e # es) = data_pages_of es"

fun sum_num_values :: "'es CompressedDataPage list \<Rightarrow> int" where
  "sum_num_values [] = 0"
| "sum_num_values (p # ps) = page_num_values p + sum_num_values ps"

fun all_plain :: "'es CompressedDataPage list \<Rightarrow> bool" where
  "all_plain [] = True"
| "all_plain (p # ps) = (page_encoding p = PLAIN \<and> all_plain ps)"

text \<open>
  The two statistics pointers are set together by the constructor: both null or both
  not.
\<close>

definition stats_paired :: "('e, 's, 'es, 'r, 'b) ColumnWriter \<Rightarrow> bool" where
  "stats_paired w = ((page_statistics w = None) = (chunk_statistics w = None))"

text \<open>
  The page a cut forms, in the words of section 4.4: the payload of the two level chunks
  and the flushed values, compressed when the page writer has a compressor; the number
  of buffered values as the header's \<^verbatim>\<open>int32_t\<close>; the writer's current encoding; RLE
  for both level streams; the size of the payload; the snapshot of the page statistics.
\<close>

definition page_payload ::
  "('v, 'e, 's, 'es, 'r, 'b) collaborators \<Rightarrow> ('e, 's, 'es, 'r, 'b) ColumnWriter \<Rightarrow> byte list" where
  "page_payload X w =
     level_chunk (levels X) (max_repetition_level (descr w))
       (static_cast_int (num_buffered_values w)) (repetition_levels_sink w)
     @ level_chunk (levels X) (max_definition_level (descr w))
         (static_cast_int (num_buffered_values w)) (definition_levels_sink w)
     @ fst (FlushValues (encoders X) (current_encoder w))"

definition cut_page ::
  "('v, 'e, 's, 'es, 'r, 'b) collaborators \<Rightarrow> ('e, 's, 'es, 'r, 'b) ColumnWriter
    \<Rightarrow> 'es CompressedDataPage" where
  "cut_page X w =
     \<lparr>page_buffer = (if has_compressor (pager_of X)
                     then Compress (pager_of X) (page_payload X w) else page_payload X w),
      page_num_values = static_cast_int (num_buffered_values w),
      page_encoding = encoding w,
      definition_level_encoding = RLE,
      repetition_level_encoding = RLE,
      page_uncompressed_size = int (length (page_payload X w)),
      page_statistics_of = GetPageStatistics X w\<rparr>"

text \<open>
  The dictionary page, in the words of section 4.4: the payload \<open>WriteDict\<close> serialises,
  the number of entries, and the configured dictionary index encoding.
\<close>

definition dictionary_page ::
  "('v, 'e, 's, 'es, 'r, 'b) collaborators \<Rightarrow> ('e, 's, 'es, 'r, 'b) ColumnWriter
    \<Rightarrow> DictionaryPage" where
  "dictionary_page X w =
     \<lparr>dict_buffer = WriteDict (encoders X) (current_encoder w),
      dict_num_values = num_entries (encoders X) (FreeAll (encoders X) (current_encoder w)),
      dict_encoding = dictionary_index_encoding (properties w)\<rparr>"

subsection \<open>Invariants of an open writer\<close>

text \<open>
  While dictionary encoding is active nothing has reached the page writer; once it has
  fallen back the dictionary page is there, first and alone; a writer without dictionary
  never writes one.
\<close>

definition dictionary_inv :: "('e, 's, 'es, 'r, 'b) ColumnWriter \<Rightarrow> bool" where
  "dictionary_inv w =
     (stats_paired w \<and>
      (if has_dictionary w
       then (if fallback w then one_dictionary_page_first (pager w) else pager w = [])
       else no_dictionary_page (pager w)))"

text \<open>After the fallback: pages are written eagerly, with the plain encoding.\<close>

definition fallen_back :: "('e, 's, 'es, 'r, 'b) ColumnWriter \<Rightarrow> bool" where
  "fallen_back w =
     (stats_paired w \<and> has_dictionary w \<and> fallback w \<and> encoding w = PLAIN
      \<and> data_pages w = [])"

text \<open>
  The level entries accounted for: those in the pages written, those in the pages
  queued, and those buffered since the last cut add up to \<open>T\<close>.
\<close>

definition accounted :: "('e, 's, 'es, 'r, 'b) ColumnWriter \<Rightarrow> int \<Rightarrow> bool" where
  "accounted w T =
     (stats_paired w \<and> 0 \<le> num_buffered_values w
      \<and> 0 \<le> sum_num_values (data_pages_of (pager w))
      \<and> 0 \<le> sum_num_values (data_pages w)
      \<and> sum_num_values (data_pages_of (pager w)) + sum_num_values (data_pages w)
          + num_buffered_values w = T)"

subsection \<open>Stand-ins for running the writer\<close>

text \<open>
  Modelled from the spec: the plain and dictionary encoders of
  \<^verbatim>\<open>parquet/encoding-internal.h\<close> and the statistics of \<^verbatim>\<open>parquet/statistics.h\<close>,
  which are not among the sources, at the physical type INT32. Section 4.2: the plain
  encoder writes the raw little-endian values and estimates its size as the bytes it
  holds; the dictionary encoder keeps the distinct values in insertion order and the
  indices of the values put, reports the size of the plain-encoded dictionary, and
  flushes the indices behind one byte for their bit width. Section 4.3: the statistics
  count the non-null and the null entries. Arrow's RLE encoder and bit writer belong to
  another library; the stand-in writes one byte for each level, up to the size of its
  region, and the index stream likewise. These definitions serve to run the writer on
  concrete inputs; the theorems about the writer hold for every collaborator.
\<close>

datatype ref_encoder = RefPlain "byte list" | RefDict "32 word list" "nat list"

fun index_of :: "'a \<Rightarrow> 'a list \<Rightarrow> nat" where
  "index_of x [] = 0"
| "index_of x (y # ys) = (if x = y then 0 else Suc (index_of x ys))"

fun ceil_log2 :: "nat \<Rightarrow> nat" where
  "ceil_log2 n = (if n \<le> 1 then 0 else Suc (ceil_log2 ((n + 1) div 2)))"

declare ceil_log2.simps [simp del]

fun ref_put_value :: "32 word \<Rightarrow> ref_encoder \<Rightarrow> ref_encoder" where
  "ref_put_value v (RefPlain bs) = RefPlain (bs @ store_int32 (sint v))"
| "ref_put_value v (RefDict d ix) =
     (if v \<in> set d then RefDict d (ix @ [index_of v d])
      else RefDict (d @ [v]) (ix @ [length d]))"

definition ref_put_values :: "32 word list \<Rightarrow> ref_encoder \<Rightarrow> ref_encoder" where
  "ref_put_values vs e = fold ref_put_value vs e"

definition valid_bit :: "byte list \<Rightarrow> nat \<Rightarrow> bool" where
  "valid_bit bits i = (i div 8 < length bits \<and> bit (bits ! (i div 8)) (i mod 8))"

fun ref_estimated_size :: "ref_encoder \<Rightarrow> int" where
  "ref_estimated_size (RefPlain bs) = int (length bs)"
| "ref_estimated_size (RefDict d ix) = 1 + int (length ix)"

fun ref_flush_values :: "ref_encoder \<Rightarrow> byte list \<times> ref_encoder" where
  "ref_flush_values (RefPlain bs) = (bs, RefPlain [])"
| "ref_flush_values (RefDict d ix) =
     (of_nat (ceil_log2 (length d)) # map of_nat ix, RefDict d [])"

fun ref_dict_entries :: "ref_encoder \<Rightarrow> 32 word list" where
  "ref_dict_entries (RefPlain bs) = []"
| "ref_dict_entries (RefDict d ix) = d"

definition ref_encoders :: "(32 word, ref_encoder) encoder_ops" where
  "ref_encoders =
     \<lparr>PlainEncoder_new = RefPlain [],
      DictEncoder_new = RefDict [] [],
      Put = (\<lambda>vs n. ref_put_values (take (nat n) vs)),
      PutSpaced = (\<lambda>vs n bits off.
        ref_put_values
          (map (\<lambda>i. vs ! i)
             (filter (\<lambda>i. i < length vs \<and> valid_bit bits (nat off + i)) [0..<nat n]))),
      EstimatedDataEncodedSize = ref_estimated_size,
      FlushValues = ref_flush_values,
      dict_encoded_size = (\<lambda>e. 4 * int (length (ref_dict_entries e))),
      WriteDict = (\<lambda>e. concat (map (\<lambda>v. store_int32 (sint v)) (ref_dict_entries e))),
      FreeAll = (\<lambda>e. e),
      num_entries = (\<lambda>e. int (length (ref_dict_entries e)))\<rparr>"

definition ref_stats :: "(32 word, int \<times> int, int \<times> int) stats_ops" where
  "ref_stats =
     \<lparr>TypedStats_new = (0, 0),
      Update = (\<lambda>vs non_null nulls (a, b). (a + non_null, b + nulls)),
      UpdateSpaced = (\<lambda>vs bits off non_null nulls (a, b). (a + non_null, b + nulls)),
      Encode = (\<lambda>s. s),
      Merge = (\<lambda>(a, b) (c, d). (a + c, b + d)),
      Reset = (\<lambda>s. (0, 0)),
      EncodedStatistics_new = (0, 0),
      is_set = (\<lambda>(a, b). a \<noteq> 0 \<or> b \<noteq> 0)\<rparr>"

fun ref_put_level :: "level \<Rightarrow> int \<times> byte list \<Rightarrow> bool \<times> int \<times> byte list" where
  "ref_put_level l (cap, bs) =
     (if int (length bs) < cap then (True, cap, bs @ [ucast l]) else (False, cap, bs))"

definition ref_levels :: "(int \<times> byte list, int \<times> byte list) level_ops" where
  "ref_levels =
     \<lparr>Log2 = (\<lambda>x. int (ceil_log2 (nat x))),
      Ceil = (\<lambda>a b. cpp_div a b + (if cpp_mod a b \<noteq> 0 then 1 else 0)),
      RleEncoder_MaxBufferSize = (\<lambda>bw n. n),
      RleEncoder_MinBufferSize = (\<lambda>bw. 1),
      RleEncoder_new = (\<lambda>size bw. (size, [])),
      RleEncoder_Put = ref_put_level,
      RleEncoder_Flush = (\<lambda>r. r),
      RleEncoder_bytes = snd,
      BitWriter_new = (\<lambda>size. (size, [])),
      BitWriter_PutValue = (\<lambda>l bw. ref_put_level l),
      BitWriter_Flush = (\<lambda>b. b)\<rparr>"

text \<open>A page writer without a compressor that reports the payload bytes it was given.\<close>

definition ref_pager :: "(int \<times> int) pager_ops" where
  "ref_pager =
     \<lparr>has_compressor = False,
      Compress = (\<lambda>bs. bs),
      pager_WriteDataPage = (\<lambda>p. int (length (page_buffer p))),
      pager_WriteDictionaryPage = (\<lambda>p. int (length (dict_buffer p)))\<rparr>"

definition ref ::
  "(32 word, ref_encoder, int \<times> int, int \<times> int, int \<times> byte list, int \<times> byte list)
     collaborators" where
  "ref = \<lparr>encoders = ref_encoders, stats = ref_stats, levels = ref_levels,
          pager_of = ref_pager\<rparr>"

text \<open>Descriptors and properties for the examples.\<close>

definition required_int32 :: ColumnDescriptor where
  "required_int32 =
     \<lparr>physical_type = INT32, path = [''a''], max_definition_level = 0,
      max_repetition_level = 0, is_optional = False\<rparr>"


definition repeated_int32 :: ColumnDescriptor where
  "repeated_int32 =
     \<lparr>physical_type = INT32, path = [''a''], max_definition_level = 1,
      max_repetition_level = 1, is_optional = False\<rparr>"

text \<open>
  Properties with the given per-column encoding, the dictionary switched on or off, and
  the two size thresholds; a batch size of 1024 and no statistics.
\<close>

definition example_properties :: "Encoding \<Rightarrow> bool \<Rightarrow> int \<Rightarrow> int \<Rightarrow> WriterProperties" where
  "example_properties enc dict limit pagesize =
     \<lparr>column_encoding = (\<lambda>p. enc), dictionary_enabled = (\<lambda>p. dict),
      dictionary_page_encoding = RLE_DICTIONARY, dictionary_index_encoding = PLAIN_DICTIONARY,
      dictionary_pagesize_limit = limit, data_pagesize = pagesize,
      write_batch_size = 1024, statistics_enabled = (\<lambda>p. False)\<rparr>"

text \<open>The writer the typed constructor builds, for an encoding the constructor accepts.\<close>

definition example_writer ::
  "ColumnDescriptor \<Rightarrow> int \<Rightarrow> Encoding \<Rightarrow> WriterProperties
    \<Rightarrow> (ref_encoder, int \<times> int, int \<times> int, int \<times> byte list, int \<times> byte list) ColumnWriter" where
  "example_writer d rows enc props =
     (case TypedColumnWriter_new ref d rows enc props of
        Inr w \<Rightarrow> w
      | Inl e \<Rightarrow> ColumnWriter_new d rows False enc props (RefPlain []) None)"

section \<open>Properties\<close>

subsection \<open>The length word\<close>

lemma ucast_byte0: "(ucast (word_of_nat n :: 32 word) :: byte) = of_nat (take_bit 8 n)"
  by (rule bit_word_eqI) (auto simp add: bit_simps)

lemma ucast_byte1:
  "(ucast (drop_bit 8 (word_of_nat n :: 32 word)) :: byte) = of_nat (take_bit 8 (drop_bit 8 n))"
  by (rule bit_word_eqI) (auto simp add: bit_simps)

lemma ucast_byte2:
  "(ucast (drop_bit 16 (word_of_nat n :: 32 word)) :: byte) = of_nat (take_bit 8 (drop_bit 16 n))"
  by (rule bit_word_eqI) (auto simp add: bit_simps)

lemma ucast_byte3:
  "(ucast (drop_bit 24 (word_of_nat n :: 32 word)) :: byte) = of_nat (take_bit 8 (drop_bit 24 n))"
  by (rule bit_word_eqI) (auto simp add: bit_simps)

lemma store_int32_nat: "store_int32 (int n) = u32_le n"
proof -
  have e: "n mod 256 = take_bit 8 n" "n div 256 mod 256 = take_bit 8 (drop_bit 8 n)"
    "n div 65536 mod 256 = take_bit 8 (drop_bit 16 n)"
    "n div 16777216 mod 256 = take_bit 8 (drop_bit 24 n)"
    by (simp_all add: take_bit_eq_mod drop_bit_eq_div)
  show ?thesis
    unfolding store_int32_def u32_le_def Let_def e
    by (simp add: ucast_byte0 ucast_byte1 ucast_byte2 ucast_byte3)
qed

lemma length_u32_le [simp]: "length (u32_le n) = 4"
  by (simp add: u32_le_def)

subsection \<open>Encoding the levels of a page\<close>

text \<open>
  \<open>RleEncodeLevels\<close> throws nothing: it asks for RLE, which \<open>Init\<close> accepts, and it
  encodes right after \<open>Init\<close>. It touches the level encoder only.
\<close>

lemma RleEncodeLevels_eq:
  "RleEncodeLevels X src m w =
     (Inr (int (length (rle_encoded_levels (levels X) m
                          (static_cast_int (num_buffered_values w)) src)) + 4,
           u32_le (length (rle_encoded_levels (levels X) m
                             (static_cast_int (num_buffered_values w)) src))
           @ rle_encoded_levels (levels X) m (static_cast_int (num_buffered_values w)) src),
      w\<lparr>level_encoder := (level_encoder w)
          \<lparr>bit_width := Log2 (levels X) (sint m + 1), level_encoding := RLE,
           rle_encoder := Some (rle_encoder_after (levels X) m
                                  (static_cast_int (num_buffered_values w)) src),
           rle_length := int (length (rle_encoded_levels (levels X) m
                                        (static_cast_int (num_buffered_values w)) src))\<rparr>\<rparr>)"
  by (simp add: RleEncodeLevels_def LevelEncoder_MaxBufferSize_def LevelEncoder_Init_def
      LevelEncoder_Encode_def LevelEncoder_len_def RleEncoder_len_def rle_encoded_levels_def
      rle_encoder_after_def store_int32_nat Let_def split: prod.splits)



subsection \<open>The page a cut forms\<close>

lemma encode_levels_fst:
  "fst (encode_levels X w) =
     Inr (int (length (level_chunk (levels X) (max_definition_level (descr w))
                  (static_cast_int (num_buffered_values w)) (definition_levels_sink w))),
          int (length (level_chunk (levels X) (max_repetition_level (descr w))
                  (static_cast_int (num_buffered_values w)) (repetition_levels_sink w))))"
  by (simp add: encode_levels_def and_then_def RleEncodeLevels_eq level_chunk_def)

lemma encode_levels_frame [simp]:
  "descr (snd (encode_levels X w)) = descr w"
  "pager (snd (encode_levels X w)) = pager w"
  "metadata_statistics (snd (encode_levels X w)) = metadata_statistics w"
  "expected_rows (snd (encode_levels X w)) = expected_rows w"
  "has_dictionary (snd (encode_levels X w)) = has_dictionary w"
  "encoding (snd (encode_levels X w)) = encoding w"
  "properties (snd (encode_levels X w)) = properties w"
  "num_buffered_values (snd (encode_levels X w)) = num_buffered_values w"
  "num_buffered_encoded_values (snd (encode_levels X w)) = num_buffered_encoded_values w"
  "num_rows (snd (encode_levels X w)) = num_rows w"
  "total_bytes_written (snd (encode_levels X w)) = total_bytes_written w"
  "closed (snd (encode_levels X w)) = closed w"
  "fallback (snd (encode_levels X w)) = fallback w"
  "definition_levels_sink (snd (encode_levels X w)) = definition_levels_sink w"
  "repetition_levels_sink (snd (encode_levels X w)) = repetition_levels_sink w"
  "uncompressed_data (snd (encode_levels X w)) = uncompressed_data w"
  "compressed_data (snd (encode_levels X w)) = compressed_data w"
  "data_pages (snd (encode_levels X w)) = data_pages w"
  "current_encoder (snd (encode_levels X w)) = current_encoder w"
  "page_statistics (snd (encode_levels X w)) = page_statistics w"
  "chunk_statistics (snd (encode_levels X w)) = chunk_statistics w"
  by (simp_all add: encode_levels_def and_then_def RleEncodeLevels_eq)

lemma encode_levels_buffers:
  "take (length (level_chunk (levels X) (max_definition_level (descr w))
                  (static_cast_int (num_buffered_values w)) (definition_levels_sink w)))
        (definition_levels_rle (snd (encode_levels X w))) =
     level_chunk (levels X) (max_definition_level (descr w))
       (static_cast_int (num_buffered_values w)) (definition_levels_sink w)"
  "take (length (level_chunk (levels X) (max_repetition_level (descr w))
                  (static_cast_int (num_buffered_values w)) (repetition_levels_sink w)))
        (repetition_levels_rle (snd (encode_levels X w))) =
     level_chunk (levels X) (max_repetition_level (descr w))
       (static_cast_int (num_buffered_values w)) (repetition_levels_sink w)"
  by (simp_all add: encode_levels_def and_then_def RleEncodeLevels_eq level_chunk_def)


lemmas assemble_unfold =
  assemble_page_def and_then_def ResetPageStatistics_def WriteDataPage_def InitSinks_def
  GetPageStatistics_def Let_def

lemma assemble_page_ok: "stats_paired w \<Longrightarrow> fst (assemble_page X vals ds rs w) = Inr ()"
  by (simp add: assemble_unfold stats_paired_def split: option.splits)

lemma assemble_page_frame [simp]:
  "descr (snd (assemble_page X vals ds rs w)) = descr w"
  "properties (snd (assemble_page X vals ds rs w)) = properties w"
  "expected_rows (snd (assemble_page X vals ds rs w)) = expected_rows w"
  "has_dictionary (snd (assemble_page X vals ds rs w)) = has_dictionary w"
  "fallback (snd (assemble_page X vals ds rs w)) = fallback w"
  "closed (snd (assemble_page X vals ds rs w)) = closed w"
  "encoding (snd (assemble_page X vals ds rs w)) = encoding w"
  "num_rows (snd (assemble_page X vals ds rs w)) = num_rows w"
  "metadata_statistics (snd (assemble_page X vals ds rs w)) = metadata_statistics w"
  "current_encoder (snd (assemble_page X vals ds rs w)) = current_encoder w"
  by (simp_all add: assemble_unfold split: option.splits)

lemma assemble_page_stats_paired [simp]:
  "stats_paired (snd (assemble_page X vals ds rs w)) = stats_paired w"
  by (simp add: assemble_unfold stats_paired_def split: option.splits)

lemma assemble_page_buffered:
  "stats_paired w \<Longrightarrow> num_buffered_values (snd (assemble_page X vals ds rs w)) = 0"
  "stats_paired w \<Longrightarrow> num_buffered_encoded_values (snd (assemble_page X vals ds rs w)) = 0"
  "stats_paired w \<Longrightarrow> definition_levels_sink (snd (assemble_page X vals ds rs w)) = []"
  "stats_paired w \<Longrightarrow> repetition_levels_sink (snd (assemble_page X vals ds rs w)) = []"
  by (simp_all add: assemble_unfold stats_paired_def split: option.splits)

lemma assemble_page_data_pages:
  "stats_paired w \<Longrightarrow> data_pages (snd (assemble_page X vals ds rs w)) =
     (if has_dictionary w \<and> \<not> fallback w then data_pages w @ [assembled X vals ds rs w]
      else data_pages w)"
  by (auto simp add: assemble_unfold stats_paired_def assembled_def split: option.splits)

lemma assemble_page_pager:
  "stats_paired w \<Longrightarrow> pager (snd (assemble_page X vals ds rs w)) =
     (if has_dictionary w \<and> \<not> fallback w then pager w
      else pager w @ [DataPageWritten (assembled X vals ds rs w)])"
  by (auto simp add: assemble_unfold stats_paired_def assembled_def split: option.splits)

lemma assemble_page_total:
  "stats_paired w \<Longrightarrow> total_bytes_written (snd (assemble_page X vals ds rs w)) =
     (if has_dictionary w \<and> \<not> fallback w then total_bytes_written w
      else total_bytes_written w + pager_WriteDataPage (pager_of X) (assembled X vals ds rs w))"
  by (auto simp add: assemble_unfold stats_paired_def assembled_def split: option.splits)


lemma and_then_alt:
  "and_then m f = (case fst m of Inl e \<Rightarrow> (Inl e, snd m) | Inr a \<Rightarrow> f a (snd m))"
  by (simp add: and_then_def split: prod.splits sum.splits)

lemma AddDataPage_eq:
  "AddDataPage X w =
     assemble_page X (fst (FlushValues (encoders X) (current_encoder w)))
       (int (length (level_chunk (levels X) (max_definition_level (descr w))
                  (static_cast_int (num_buffered_values w)) (definition_levels_sink w))))
       (int (length (level_chunk (levels X) (max_repetition_level (descr w))
                  (static_cast_int (num_buffered_values w)) (repetition_levels_sink w))))
       (snd (encode_levels X
               (w\<lparr>current_encoder := snd (FlushValues (encoders X) (current_encoder w))\<rparr>)))"
  by (simp add: AddDataPage_def GetValuesBuffer_def case_prod_beta and_then_alt
      encode_levels_fst)

lemma assembled_cut_page:
  "assembled X (fst (FlushValues (encoders X) (current_encoder w)))
       (int (length (level_chunk (levels X) (max_definition_level (descr w))
                  (static_cast_int (num_buffered_values w)) (definition_levels_sink w))))
       (int (length (level_chunk (levels X) (max_repetition_level (descr w))
                  (static_cast_int (num_buffered_values w)) (repetition_levels_sink w))))
       (snd (encode_levels X
               (w\<lparr>current_encoder := snd (FlushValues (encoders X) (current_encoder w))\<rparr>)))
   = cut_page X w"
  using encode_levels_buffers [of X "w\<lparr>current_encoder := snd (FlushValues (encoders X) (current_encoder w))\<rparr>"]
  by (simp add: assembled_def cut_page_def page_payload_def GetPageStatistics_def)

lemma AddDataPage_ok: "stats_paired w \<Longrightarrow> fst (AddDataPage X w) = Inr ()"
  by (simp add: AddDataPage_eq assemble_page_ok stats_paired_def)

lemma AddDataPage_frame [simp]:
  "descr (snd (AddDataPage X w)) = descr w"
  "properties (snd (AddDataPage X w)) = properties w"
  "expected_rows (snd (AddDataPage X w)) = expected_rows w"
  "has_dictionary (snd (AddDataPage X w)) = has_dictionary w"
  "fallback (snd (AddDataPage X w)) = fallback w"
  "closed (snd (AddDataPage X w)) = closed w"
  "encoding (snd (AddDataPage X w)) = encoding w"
  "num_rows (snd (AddDataPage X w)) = num_rows w"
  "metadata_statistics (snd (AddDataPage X w)) = metadata_statistics w"
  by (simp_all add: AddDataPage_eq)

lemma AddDataPage_stats_paired [simp]:
  "stats_paired (snd (AddDataPage X w)) = stats_paired w"
  by (simp add: AddDataPage_eq) (simp add: stats_paired_def)

lemma AddDataPage_encoder:
  "current_encoder (snd (AddDataPage X w)) = snd (FlushValues (encoders X) (current_encoder w))"
  by (simp add: AddDataPage_eq)

lemma AddDataPage_buffered:
  "stats_paired w \<Longrightarrow> num_buffered_values (snd (AddDataPage X w)) = 0"
  "stats_paired w \<Longrightarrow> num_buffered_encoded_values (snd (AddDataPage X w)) = 0"
  "stats_paired w \<Longrightarrow> definition_levels_sink (snd (AddDataPage X w)) = []"
  "stats_paired w \<Longrightarrow> repetition_levels_sink (snd (AddDataPage X w)) = []"
  by (simp_all add: AddDataPage_eq assemble_page_buffered stats_paired_def)

lemma AddDataPage_data_pages:
  "stats_paired w \<Longrightarrow> data_pages (snd (AddDataPage X w)) =
     (if has_dictionary w \<and> \<not> fallback w then data_pages w @ [cut_page X w] else data_pages w)"
  by (simp add: AddDataPage_eq assemble_page_data_pages assembled_cut_page stats_paired_def)

lemma AddDataPage_pager:
  "stats_paired w \<Longrightarrow> pager (snd (AddDataPage X w)) =
     (if has_dictionary w \<and> \<not> fallback w then pager w
      else pager w @ [DataPageWritten (cut_page X w)])"
  by (simp add: AddDataPage_eq assemble_page_pager assembled_cut_page stats_paired_def)

lemma AddDataPage_total:
  "stats_paired w \<Longrightarrow> total_bytes_written (snd (AddDataPage X w)) =
     (if has_dictionary w \<and> \<not> fallback w then total_bytes_written w
      else total_bytes_written w + pager_WriteDataPage (pager_of X) (cut_page X w))"
  by (simp add: AddDataPage_eq assemble_page_total assembled_cut_page stats_paired_def)

subsection \<open>Flushing\<close>

lemma stats_paired_update [simp]:
  "stats_paired (w\<lparr>data_pages := a\<rparr>) = stats_paired w"
  "stats_paired (w\<lparr>fallback := b\<rparr>) = stats_paired w"
  "stats_paired (w\<lparr>current_encoder := c\<rparr>) = stats_paired w"
  "stats_paired (w\<lparr>encoding := d\<rparr>) = stats_paired w"
  "stats_paired (w\<lparr>num_buffered_values := e\<rparr>) = stats_paired w"
  "stats_paired (w\<lparr>num_buffered_encoded_values := f\<rparr>) = stats_paired w"
  "stats_paired (w\<lparr>num_rows := g\<rparr>) = stats_paired w"
  "stats_paired (w\<lparr>closed := h\<rparr>) = stats_paired w"
  "stats_paired (w\<lparr>pager := i\<rparr>) = stats_paired w"
  "stats_paired (w\<lparr>metadata_statistics := j\<rparr>) = stats_paired w"
  "stats_paired (w\<lparr>definition_levels_sink := k\<rparr>) = stats_paired w"
  "stats_paired (w\<lparr>repetition_levels_sink := l\<rparr>) = stats_paired w"
  "stats_paired (w\<lparr>total_bytes_written := m\<rparr>) = stats_paired w"
  by (simp_all add: stats_paired_def)

lemma fold_WriteDataPage_frame [simp]:
  "descr (fold (WriteDataPage X) ps w) = descr w"
  "properties (fold (WriteDataPage X) ps w) = properties w"
  "expected_rows (fold (WriteDataPage X) ps w) = expected_rows w"
  "has_dictionary (fold (WriteDataPage X) ps w) = has_dictionary w"
  "fallback (fold (WriteDataPage X) ps w) = fallback w"
  "closed (fold (WriteDataPage X) ps w) = closed w"
  "encoding (fold (WriteDataPage X) ps w) = encoding w"
  "num_rows (fold (WriteDataPage X) ps w) = num_rows w"
  "metadata_statistics (fold (WriteDataPage X) ps w) = metadata_statistics w"
  "num_buffered_values (fold (WriteDataPage X) ps w) = num_buffered_values w"
  "num_buffered_encoded_values (fold (WriteDataPage X) ps w) = num_buffered_encoded_values w"
  "definition_levels_sink (fold (WriteDataPage X) ps w) = definition_levels_sink w"
  "repetition_levels_sink (fold (WriteDataPage X) ps w) = repetition_levels_sink w"
  "current_encoder (fold (WriteDataPage X) ps w) = current_encoder w"
  "page_statistics (fold (WriteDataPage X) ps w) = page_statistics w"
  "chunk_statistics (fold (WriteDataPage X) ps w) = chunk_statistics w"
  "data_pages (fold (WriteDataPage X) ps w) = data_pages w"
  by (induction ps arbitrary: w; simp add: WriteDataPage_def)+

lemma fold_WriteDataPage_pager [simp]:
  "pager (fold (WriteDataPage X) ps w) = pager w @ map DataPageWritten ps"
  by (induction ps arbitrary: w) (simp_all add: WriteDataPage_def)

lemma fold_WriteDataPage_stats_paired [simp]:
  "stats_paired (fold (WriteDataPage X) ps w) = stats_paired w"
  by (simp add: stats_paired_def)

lemma WriteDictionaryPage_frame [simp]:
  "descr (WriteDictionaryPage X w) = descr w"
  "properties (WriteDictionaryPage X w) = properties w"
  "expected_rows (WriteDictionaryPage X w) = expected_rows w"
  "has_dictionary (WriteDictionaryPage X w) = has_dictionary w"
  "fallback (WriteDictionaryPage X w) = fallback w"
  "closed (WriteDictionaryPage X w) = closed w"
  "encoding (WriteDictionaryPage X w) = encoding w"
  "num_rows (WriteDictionaryPage X w) = num_rows w"
  "metadata_statistics (WriteDictionaryPage X w) = metadata_statistics w"
  "num_buffered_values (WriteDictionaryPage X w) = num_buffered_values w"
  "num_buffered_encoded_values (WriteDictionaryPage X w) = num_buffered_encoded_values w"
  "definition_levels_sink (WriteDictionaryPage X w) = definition_levels_sink w"
  "repetition_levels_sink (WriteDictionaryPage X w) = repetition_levels_sink w"
  "page_statistics (WriteDictionaryPage X w) = page_statistics w"
  "chunk_statistics (WriteDictionaryPage X w) = chunk_statistics w"
  "data_pages (WriteDictionaryPage X w) = data_pages w"
  by (simp_all add: WriteDictionaryPage_def Let_def)

lemma WriteDictionaryPage_stats_paired [simp]:
  "stats_paired (WriteDictionaryPage X w) = stats_paired w"
  by (simp add: stats_paired_def)

lemma WriteDictionaryPage_pager:
  "pager (WriteDictionaryPage X w) = pager w @ [DictionaryPageWritten (dictionary_page X w)]"
  by (simp add: WriteDictionaryPage_def dictionary_page_def Let_def)

lemma WriteDictionaryPage_encoder:
  "current_encoder (WriteDictionaryPage X w) = FreeAll (encoders X) (current_encoder w)"
  by (simp add: WriteDictionaryPage_def Let_def)

lemma FlushBufferedDataPages_ok:
  "stats_paired w \<Longrightarrow> fst (FlushBufferedDataPages X w) = Inr ()"
  by (simp add: FlushBufferedDataPages_def and_then_alt AddDataPage_ok)

lemma FlushBufferedDataPages_frame [simp]:
  "descr (snd (FlushBufferedDataPages X w)) = descr w"
  "properties (snd (FlushBufferedDataPages X w)) = properties w"
  "expected_rows (snd (FlushBufferedDataPages X w)) = expected_rows w"
  "has_dictionary (snd (FlushBufferedDataPages X w)) = has_dictionary w"
  "fallback (snd (FlushBufferedDataPages X w)) = fallback w"
  "closed (snd (FlushBufferedDataPages X w)) = closed w"
  "encoding (snd (FlushBufferedDataPages X w)) = encoding w"
  "num_rows (snd (FlushBufferedDataPages X w)) = num_rows w"
  "metadata_statistics (snd (FlushBufferedDataPages X w)) = metadata_statistics w"
  by (simp_all add: FlushBufferedDataPages_def and_then_alt split: sum.splits)

lemma FlushBufferedDataPages_stats_paired [simp]:
  "stats_paired (snd (FlushBufferedDataPages X w)) = stats_paired w"
  by (simp add: FlushBufferedDataPages_def and_then_alt split: sum.splits)

lemma FlushBufferedDataPages_data_pages:
  "stats_paired w \<Longrightarrow> data_pages (snd (FlushBufferedDataPages X w)) = []"
  by (simp add: FlushBufferedDataPages_def and_then_alt AddDataPage_ok)

lemma FlushBufferedDataPages_buffered:
  "stats_paired w \<Longrightarrow> num_buffered_values (snd (FlushBufferedDataPages X w)) =
     (if 0 < num_buffered_values w then 0 else num_buffered_values w)"
  by (simp add: FlushBufferedDataPages_def and_then_alt AddDataPage_ok AddDataPage_buffered)

lemma FlushBufferedDataPages_pager:
  "stats_paired w \<Longrightarrow> pager (snd (FlushBufferedDataPages X w)) =
     (if 0 < num_buffered_values w
      then (if has_dictionary w \<and> \<not> fallback w
            then pager w @ map DataPageWritten (data_pages w @ [cut_page X w])
            else pager w @ DataPageWritten (cut_page X w) # map DataPageWritten (data_pages w))
      else pager w @ map DataPageWritten (data_pages w))"
  by (simp add: FlushBufferedDataPages_def and_then_alt AddDataPage_ok AddDataPage_pager
      AddDataPage_data_pages)

subsection \<open>The dictionary check and the mini-batch tail\<close>


lemma CheckDictionarySizeLimit_frame [simp]:
  "descr (snd (CheckDictionarySizeLimit X w)) = descr w"
  "properties (snd (CheckDictionarySizeLimit X w)) = properties w"
  "expected_rows (snd (CheckDictionarySizeLimit X w)) = expected_rows w"
  "has_dictionary (snd (CheckDictionarySizeLimit X w)) = has_dictionary w"
  "closed (snd (CheckDictionarySizeLimit X w)) = closed w"
  "num_rows (snd (CheckDictionarySizeLimit X w)) = num_rows w"
  "metadata_statistics (snd (CheckDictionarySizeLimit X w)) = metadata_statistics w"
  "stats_paired (snd (CheckDictionarySizeLimit X w)) = stats_paired w"
  by (simp_all add: CheckDictionarySizeLimit_def and_then_alt split: sum.splits)

lemma CheckDictionarySizeLimit_below:
  "dict_encoded_size (encoders X) (current_encoder w) < dictionary_pagesize_limit (properties w)
   \<Longrightarrow> CheckDictionarySizeLimit X w = (Inr (), w)"
  by (simp add: CheckDictionarySizeLimit_def)

lemma CheckDictionarySizeLimit_reached:
  assumes "stats_paired w"
    and "dictionary_pagesize_limit (properties w)
           \<le> dict_encoded_size (encoders X) (current_encoder w)"
  shows "fallback (snd (CheckDictionarySizeLimit X w))"
    and "encoding (snd (CheckDictionarySizeLimit X w)) = PLAIN"
    and "current_encoder (snd (CheckDictionarySizeLimit X w)) = PlainEncoder_new (encoders X)"
    and "data_pages (snd (CheckDictionarySizeLimit X w)) = []"
    and "num_buffered_values (snd (CheckDictionarySizeLimit X w)) =
           (if 0 < num_buffered_values w then 0 else num_buffered_values w)"
    and "pager (snd (CheckDictionarySizeLimit X w)) =
           pager (snd (FlushBufferedDataPages X (WriteDictionaryPage X w)))"
  using assms
  by (simp_all add: CheckDictionarySizeLimit_def and_then_alt FlushBufferedDataPages_ok
      FlushBufferedDataPages_data_pages FlushBufferedDataPages_buffered)

lemma count_rows_frame [simp]:
  "descr (count_rows n r w) = descr w"
  "properties (count_rows n r w) = properties w"
  "expected_rows (count_rows n r w) = expected_rows w"
  "has_dictionary (count_rows n r w) = has_dictionary w"
  "fallback (count_rows n r w) = fallback w"
  "closed (count_rows n r w) = closed w"
  "encoding (count_rows n r w) = encoding w"
  "metadata_statistics (count_rows n r w) = metadata_statistics w"
  "pager (count_rows n r w) = pager w"
  "data_pages (count_rows n r w) = data_pages w"
  "num_buffered_values (count_rows n r w) = num_buffered_values w"
  "num_buffered_encoded_values (count_rows n r w) = num_buffered_encoded_values w"
  "definition_levels_sink (count_rows n r w) = definition_levels_sink w"
  "current_encoder (count_rows n r w) = current_encoder w"
  "page_statistics (count_rows n r w) = page_statistics w"
  "chunk_statistics (count_rows n r w) = chunk_statistics w"
  "total_bytes_written (count_rows n r w) = total_bytes_written w"
  "stats_paired (count_rows n r w) = stats_paired w"
  by (simp_all add: count_rows_def WriteRepetitionLevels_def stats_paired_def)

lemma count_rows_num_rows:
  "num_rows (count_rows n r w) =
     num_rows w + (if 0 < sint (max_repetition_level (descr w))
                   then int (length (filter (\<lambda>l. l = 0) (take n r)))
                   else static_cast_int (int n))"
  by (simp add: count_rows_def WriteRepetitionLevels_def)

lemma count_rows_sink:
  "repetition_levels_sink (count_rows n r w) =
     (if 0 < sint (max_repetition_level (descr w))
      then repetition_levels_sink w @ take n r else repetition_levels_sink w)"
  by (simp add: count_rows_def WriteRepetitionLevels_def)


lemma after_values_frame [simp]:
  "descr (snd (after_values X n vtw w)) = descr w"
  "properties (snd (after_values X n vtw w)) = properties w"
  "expected_rows (snd (after_values X n vtw w)) = expected_rows w"
  "has_dictionary (snd (after_values X n vtw w)) = has_dictionary w"
  "closed (snd (after_values X n vtw w)) = closed w"
  "num_rows (snd (after_values X n vtw w)) = num_rows w"
  "metadata_statistics (snd (after_values X n vtw w)) = metadata_statistics w"
  "stats_paired (snd (after_values X n vtw w)) = stats_paired w"
  by (simp_all add: after_values_def Let_def and_then_alt split: sum.splits)

subsection \<open>Mini-batches\<close>

lemma write_levels_frame [simp]:
  "descr (write_levels n d r w) = descr w"
  "properties (write_levels n d r w) = properties w"
  "expected_rows (write_levels n d r w) = expected_rows w"
  "has_dictionary (write_levels n d r w) = has_dictionary w"
  "fallback (write_levels n d r w) = fallback w"
  "closed (write_levels n d r w) = closed w"
  "encoding (write_levels n d r w) = encoding w"
  "metadata_statistics (write_levels n d r w) = metadata_statistics w"
  "pager (write_levels n d r w) = pager w"
  "data_pages (write_levels n d r w) = data_pages w"
  "num_buffered_values (write_levels n d r w) = num_buffered_values w"
  "num_buffered_encoded_values (write_levels n d r w) = num_buffered_encoded_values w"
  "current_encoder (write_levels n d r w) = current_encoder w"
  "page_statistics (write_levels n d r w) = page_statistics w"
  "chunk_statistics (write_levels n d r w) = chunk_statistics w"
  "total_bytes_written (write_levels n d r w) = total_bytes_written w"
  "stats_paired (write_levels n d r w) = stats_paired w"
  by (simp_all add: write_levels_def WriteDefinitionLevels_def stats_paired_def)

lemma write_levels_num_rows:
  "num_rows (write_levels n d r w) =
     num_rows w + (if 0 < sint (max_repetition_level (descr w))
                   then int (length (filter (\<lambda>l. l = 0) (take n r)))
                   else static_cast_int (int n))"
  by (simp add: write_levels_def count_rows_num_rows WriteDefinitionLevels_def)

lemma write_levels_sinks:
  "definition_levels_sink (write_levels n d r w) =
     (if 0 < sint (max_definition_level (descr w))
      then definition_levels_sink w @ take n d else definition_levels_sink w)"
  "repetition_levels_sink (write_levels n d r w) =
     (if 0 < sint (max_repetition_level (descr w))
      then repetition_levels_sink w @ take n r else repetition_levels_sink w)"
  by (simp_all add: write_levels_def count_rows_sink WriteDefinitionLevels_def)

lemma WriteValues_frame [simp]:
  "descr (WriteValues X n v w) = descr w"
  "properties (WriteValues X n v w) = properties w"
  "expected_rows (WriteValues X n v w) = expected_rows w"
  "has_dictionary (WriteValues X n v w) = has_dictionary w"
  "fallback (WriteValues X n v w) = fallback w"
  "closed (WriteValues X n v w) = closed w"
  "encoding (WriteValues X n v w) = encoding w"
  "metadata_statistics (WriteValues X n v w) = metadata_statistics w"
  "pager (WriteValues X n v w) = pager w"
  "data_pages (WriteValues X n v w) = data_pages w"
  "num_rows (WriteValues X n v w) = num_rows w"
  "num_buffered_values (WriteValues X n v w) = num_buffered_values w"
  "num_buffered_encoded_values (WriteValues X n v w) = num_buffered_encoded_values w"
  "page_statistics (WriteValues X n v w) = page_statistics w"
  "chunk_statistics (WriteValues X n v w) = chunk_statistics w"
  "total_bytes_written (WriteValues X n v w) = total_bytes_written w"
  "definition_levels_sink (WriteValues X n v w) = definition_levels_sink w"
  "repetition_levels_sink (WriteValues X n v w) = repetition_levels_sink w"
  "stats_paired (WriteValues X n v w) = stats_paired w"
  by (simp_all add: WriteValues_def stats_paired_def)

lemma WriteValuesSpaced_frame [simp]:
  "descr (WriteValuesSpaced X n vb off v w) = descr w"
  "properties (WriteValuesSpaced X n vb off v w) = properties w"
  "expected_rows (WriteValuesSpaced X n vb off v w) = expected_rows w"
  "has_dictionary (WriteValuesSpaced X n vb off v w) = has_dictionary w"
  "fallback (WriteValuesSpaced X n vb off v w) = fallback w"
  "closed (WriteValuesSpaced X n vb off v w) = closed w"
  "encoding (WriteValuesSpaced X n vb off v w) = encoding w"
  "metadata_statistics (WriteValuesSpaced X n vb off v w) = metadata_statistics w"
  "pager (WriteValuesSpaced X n vb off v w) = pager w"
  "data_pages (WriteValuesSpaced X n vb off v w) = data_pages w"
  "num_rows (WriteValuesSpaced X n vb off v w) = num_rows w"
  "num_buffered_values (WriteValuesSpaced X n vb off v w) = num_buffered_values w"
  "num_buffered_encoded_values (WriteValuesSpaced X n vb off v w) = num_buffered_encoded_values w"
  "page_statistics (WriteValuesSpaced X n vb off v w) = page_statistics w"
  "chunk_statistics (WriteValuesSpaced X n vb off v w) = chunk_statistics w"
  "total_bytes_written (WriteValuesSpaced X n vb off v w) = total_bytes_written w"
  "definition_levels_sink (WriteValuesSpaced X n vb off v w) = definition_levels_sink w"
  "repetition_levels_sink (WriteValuesSpaced X n vb off v w) = repetition_levels_sink w"
  "stats_paired (WriteValuesSpaced X n vb off v w) = stats_paired w"
  by (simp_all add: WriteValuesSpaced_def stats_paired_def)

lemma put_spaced_frame [simp]:
  "descr (put_spaced X a b vb off v w) = descr w"
  "properties (put_spaced X a b vb off v w) = properties w"
  "expected_rows (put_spaced X a b vb off v w) = expected_rows w"
  "has_dictionary (put_spaced X a b vb off v w) = has_dictionary w"
  "fallback (put_spaced X a b vb off v w) = fallback w"
  "closed (put_spaced X a b vb off v w) = closed w"
  "encoding (put_spaced X a b vb off v w) = encoding w"
  "metadata_statistics (put_spaced X a b vb off v w) = metadata_statistics w"
  "pager (put_spaced X a b vb off v w) = pager w"
  "data_pages (put_spaced X a b vb off v w) = data_pages w"
  "num_rows (put_spaced X a b vb off v w) = num_rows w"
  "num_buffered_values (put_spaced X a b vb off v w) = num_buffered_values w"
  "num_buffered_encoded_values (put_spaced X a b vb off v w) = num_buffered_encoded_values w"
  "page_statistics (put_spaced X a b vb off v w) = page_statistics w"
  "chunk_statistics (put_spaced X a b vb off v w) = chunk_statistics w"
  "total_bytes_written (put_spaced X a b vb off v w) = total_bytes_written w"
  "definition_levels_sink (put_spaced X a b vb off v w) = definition_levels_sink w"
  "repetition_levels_sink (put_spaced X a b vb off v w) = repetition_levels_sink w"
  "stats_paired (put_spaced X a b vb off v w) = stats_paired w"
  by (simp_all add: put_spaced_def)

lemma update_page_statistics_frame [simp]:
  "descr (update_page_statistics X v a b w) = descr w"
  "properties (update_page_statistics X v a b w) = properties w"
  "expected_rows (update_page_statistics X v a b w) = expected_rows w"
  "has_dictionary (update_page_statistics X v a b w) = has_dictionary w"
  "fallback (update_page_statistics X v a b w) = fallback w"
  "closed (update_page_statistics X v a b w) = closed w"
  "encoding (update_page_statistics X v a b w) = encoding w"
  "metadata_statistics (update_page_statistics X v a b w) = metadata_statistics w"
  "pager (update_page_statistics X v a b w) = pager w"
  "data_pages (update_page_statistics X v a b w) = data_pages w"
  "num_rows (update_page_statistics X v a b w) = num_rows w"
  "num_buffered_values (update_page_statistics X v a b w) = num_buffered_values w"
  "num_buffered_encoded_values (update_page_statistics X v a b w) = num_buffered_encoded_values w"
  "current_encoder (update_page_statistics X v a b w) = current_encoder w"
  "chunk_statistics (update_page_statistics X v a b w) = chunk_statistics w"
  "total_bytes_written (update_page_statistics X v a b w) = total_bytes_written w"
  "definition_levels_sink (update_page_statistics X v a b w) = definition_levels_sink w"
  "repetition_levels_sink (update_page_statistics X v a b w) = repetition_levels_sink w"
  by (simp_all add: update_page_statistics_def split: option.splits)

lemma update_page_statistics_paired [simp]:
  "stats_paired (update_page_statistics X v a b w) = stats_paired w"
  by (simp add: update_page_statistics_def stats_paired_def split: option.splits)

lemma update_page_statistics_spaced_frame [simp]:
  "descr (update_page_statistics_spaced X v vb off a b w) = descr w"
  "properties (update_page_statistics_spaced X v vb off a b w) = properties w"
  "expected_rows (update_page_statistics_spaced X v vb off a b w) = expected_rows w"
  "has_dictionary (update_page_statistics_spaced X v vb off a b w) = has_dictionary w"
  "fallback (update_page_statistics_spaced X v vb off a b w) = fallback w"
  "closed (update_page_statistics_spaced X v vb off a b w) = closed w"
  "encoding (update_page_statistics_spaced X v vb off a b w) = encoding w"
  "metadata_statistics (update_page_statistics_spaced X v vb off a b w) = metadata_statistics w"
  "pager (update_page_statistics_spaced X v vb off a b w) = pager w"
  "data_pages (update_page_statistics_spaced X v vb off a b w) = data_pages w"
  "num_rows (update_page_statistics_spaced X v vb off a b w) = num_rows w"
  "num_buffered_values (update_page_statistics_spaced X v vb off a b w) = num_buffered_values w"
  "num_buffered_encoded_values (update_page_statistics_spaced X v vb off a b w)
     = num_buffered_encoded_values w"
  "current_encoder (update_page_statistics_spaced X v vb off a b w) = current_encoder w"
  "chunk_statistics (update_page_statistics_spaced X v vb off a b w) = chunk_statistics w"
  "total_bytes_written (update_page_statistics_spaced X v vb off a b w) = total_bytes_written w"
  "definition_levels_sink (update_page_statistics_spaced X v vb off a b w)
     = definition_levels_sink w"
  "repetition_levels_sink (update_page_statistics_spaced X v vb off a b w)
     = repetition_levels_sink w"
  by (simp_all add: update_page_statistics_spaced_def split: option.splits)

lemma update_page_statistics_spaced_paired [simp]:
  "stats_paired (update_page_statistics_spaced X v vb off a b w) = stats_paired w"
  by (simp add: update_page_statistics_spaced_def stats_paired_def split: option.splits)

lemma WriteMiniBatch_frame [simp]:
  "descr (snd (WriteMiniBatch X n d r v w)) = descr w"
  "properties (snd (WriteMiniBatch X n d r v w)) = properties w"
  "expected_rows (snd (WriteMiniBatch X n d r v w)) = expected_rows w"
  "has_dictionary (snd (WriteMiniBatch X n d r v w)) = has_dictionary w"
  "closed (snd (WriteMiniBatch X n d r v w)) = closed w"
  "metadata_statistics (snd (WriteMiniBatch X n d r v w)) = metadata_statistics w"
  "stats_paired (snd (WriteMiniBatch X n d r v w)) = stats_paired w"
  by (simp_all add: WriteMiniBatch_def Let_def and_then_alt split: sum.splits)

lemma WriteMiniBatch_num_rows:
  "num_rows (snd (WriteMiniBatch X n d r v w)) =
     num_rows w + batch_rows (max_repetition_level (descr w)) (MiniBatch n d r v)"
  by (simp add: WriteMiniBatch_def Let_def and_then_alt write_levels_num_rows batch_rows_def
      split: sum.splits)

lemma WriteMiniBatchSpaced_frame [simp]:
  "descr (snd (WriteMiniBatchSpaced X n d r vb off v w)) = descr w"
  "properties (snd (WriteMiniBatchSpaced X n d r vb off v w)) = properties w"
  "expected_rows (snd (WriteMiniBatchSpaced X n d r vb off v w)) = expected_rows w"
  "has_dictionary (snd (WriteMiniBatchSpaced X n d r vb off v w)) = has_dictionary w"
  "closed (snd (WriteMiniBatchSpaced X n d r vb off v w)) = closed w"
  "metadata_statistics (snd (WriteMiniBatchSpaced X n d r vb off v w)) = metadata_statistics w"
  "stats_paired (snd (WriteMiniBatchSpaced X n d r vb off v w)) = stats_paired w"
  by (simp_all add: WriteMiniBatchSpaced_def Let_def and_then_alt split: sum.splits)


lemma write_mini_batch_frame [simp]:
  "descr (snd (write_mini_batch X b w)) = descr w"
  "properties (snd (write_mini_batch X b w)) = properties w"
  "expected_rows (snd (write_mini_batch X b w)) = expected_rows w"
  "has_dictionary (snd (write_mini_batch X b w)) = has_dictionary w"
  "closed (snd (write_mini_batch X b w)) = closed w"
  "metadata_statistics (snd (write_mini_batch X b w)) = metadata_statistics w"
  "stats_paired (snd (write_mini_batch X b w)) = stats_paired w"
  by (cases b; simp add: and_then_alt split: sum.splits)+


lemma after_mini_batches_frame [simp]:
  "descr (after_mini_batches X bs w) = descr w"
  "properties (after_mini_batches X bs w) = properties w"
  "expected_rows (after_mini_batches X bs w) = expected_rows w"
  "has_dictionary (after_mini_batches X bs w) = has_dictionary w"
  "closed (after_mini_batches X bs w) = closed w"
  "metadata_statistics (after_mini_batches X bs w) = metadata_statistics w"
  "stats_paired (after_mini_batches X bs w) = stats_paired w"
  by (induction bs arbitrary: w; simp)+


text \<open>
  The two batch entry points cut their input into mini-batches of the configured
  \<open>write_batch_size\<close>. A batch shorter than that size is one mini-batch call: every
  mini-batch call of the lists above is a call of \<open>WriteBatch\<close> or of
  \<open>WriteBatchSpaced\<close> on a writer configured with a larger batch size.
\<close>

lemma cpp_div_small:
  "0 \<le> a \<Longrightarrow> a < b \<Longrightarrow> cpp_div a b = 0"
  "0 \<le> a \<Longrightarrow> a < b \<Longrightarrow> cpp_mod a b = a"
  by (simp_all add: cpp_div_def cpp_mod_def)

lemma WriteBatch_one_mini_batch:
  "int n < write_batch_size (properties w) \<Longrightarrow>
   WriteBatch X n d r v w = write_mini_batch X (MiniBatch n d r v) w"
  by (simp add: WriteBatch_def Let_def WriteBatch_rounds.simps and_then_def cpp_div_small
      static_cast_int_def)

lemma WriteBatchSpaced_one_mini_batch:
  "int n < write_batch_size (properties w) \<Longrightarrow>
   WriteBatchSpaced X n d r vb off v w = write_mini_batch X (MiniBatchSpaced n d r vb off v) w"
  by (simp add: WriteBatchSpaced_def Let_def WriteBatchSpaced_rounds.simps and_then_def
      cpp_div_small static_cast_int_def)

subsection \<open>Rows\<close>

lemma static_cast_int_alt:
  "static_cast_int x = (x + 2147483648) mod 4294967296 - 2147483648"
  by (simp add: static_cast_int_def int_word_sint)




lemma example_writer_PLAIN:
  "example_writer d rows PLAIN props =
     ColumnWriter_new d rows False PLAIN props (RefPlain [])
       (if statistics_enabled props (path d) then Some (0, 0) else None)"
  by (simp add: example_writer_def TypedColumnWriter_new_def ref_def ref_encoders_def
      ref_stats_def)




subsection \<open>The row budget\<close>

lemma WriteMiniBatch_exceeded:
  assumes "expected_rows w
             < num_rows w + batch_rows (max_repetition_level (descr w)) (MiniBatch n d r v)"
  shows "WriteMiniBatch X n d r v w = (Inl rows_exceeded, write_levels n d r w)"
proof -
  have "expected_rows (write_levels n d r w) < num_rows (write_levels n d r w)"
    using assms by (simp add: write_levels_num_rows batch_rows_def split: if_splits)
  then show ?thesis
    by (simp add: WriteMiniBatch_def Let_def)
qed

lemma WriteMiniBatchSpaced_exceeded:
  assumes "expected_rows w
             < num_rows w + batch_rows (max_repetition_level (descr w))
                              (MiniBatchSpaced n d r vb off v)"
  shows "WriteMiniBatchSpaced X n d r vb off v w = (Inl rows_exceeded, write_levels n d r w)"
proof -
  have "expected_rows (write_levels n d r w) < num_rows (write_levels n d r w)"
    using assms by (simp add: write_levels_num_rows batch_rows_def split: if_splits)
  then show ?thesis
    by (simp add: WriteMiniBatchSpaced_def Let_def)
qed

text \<open>
  C10. When the rows a mini-batch adds take \<open>num_rows\<close> past \<open>expected_rows\<close>, the call
  (plain or spaced) throws the row-budget error and the writer it leaves is not the one
  it was given: the definition and the repetition levels of the batch are in their
  sinks (where the column has such levels) and \<open>num_rows\<close> counts the rows of the
  batch, beyond \<open>expected_rows\<close>.
\<close>

theorem rows_exceeded_keeps_partial_state:
  assumes "expected_rows w < num_rows w + batch_rows (max_repetition_level (descr w)) b"
  shows "fst (write_mini_batch X b w) = Inl rows_exceeded
    \<and> definition_levels_sink (snd (write_mini_batch X b w)) =
        (if 0 < sint (max_definition_level (descr w))
         then definition_levels_sink w @ take (batch_num_values b) (batch_def_levels b)
         else definition_levels_sink w)
    \<and> repetition_levels_sink (snd (write_mini_batch X b w)) =
        (if 0 < sint (max_repetition_level (descr w))
         then repetition_levels_sink w @ take (batch_num_values b) (batch_rep_levels b)
         else repetition_levels_sink w)
    \<and> num_rows (snd (write_mini_batch X b w)) =
        num_rows w + batch_rows (max_repetition_level (descr w)) b
    \<and> expected_rows w < num_rows (snd (write_mini_batch X b w))"
proof (cases b)
  case (MiniBatch n d r v)
  then show ?thesis
    using assms
    by (simp add: WriteMiniBatch_exceeded and_then_def write_levels_num_rows
        write_levels_sinks batch_rows_def split: if_splits)
next
  case (MiniBatchSpaced n d r vb off v)
  then show ?thesis
    using assms
    by (simp add: WriteMiniBatchSpaced_exceeded and_then_def write_levels_num_rows
        write_levels_sinks batch_rows_def split: if_splits)
qed

lemma example_writer_dict:
  "enc = PLAIN_DICTIONARY \<or> enc = RLE_DICTIONARY \<Longrightarrow>
   example_writer d rows enc props =
     ColumnWriter_new d rows True enc props (RefDict [] [])
       (if statistics_enabled props (path d) then Some (0, 0) else None)"
  by (auto simp add: example_writer_def TypedColumnWriter_new_def ref_def ref_encoders_def
      ref_stats_def)

text \<open>
  A repeated column that expects one row is given three levels that start two rows.
\<close>

theorem rows_exceeded_keeps_partial_state_witness:
  "expected_rows (example_writer repeated_int32 1 PLAIN (example_properties PLAIN False 100 100))
     < num_rows (example_writer repeated_int32 1 PLAIN (example_properties PLAIN False 100 100))
       + batch_rows (max_repetition_level (descr
           (example_writer repeated_int32 1 PLAIN (example_properties PLAIN False 100 100))))
           (MiniBatch 3 [1, 1, 1] [0, 1, 0] [7, 8, 9 :: 32 word])
   \<and> fst (write_mini_batch ref (MiniBatch 3 [1, 1, 1] [0, 1, 0] [7, 8, 9])
        (example_writer repeated_int32 1 PLAIN (example_properties PLAIN False 100 100)))
      = Inl rows_exceeded
   \<and> definition_levels_sink (snd (write_mini_batch ref (MiniBatch 3 [1, 1, 1] [0, 1, 0] [7, 8, 9])
        (example_writer repeated_int32 1 PLAIN (example_properties PLAIN False 100 100))))
      = [1, 1, 1]
   \<and> repetition_levels_sink (snd (write_mini_batch ref (MiniBatch 3 [1, 1, 1] [0, 1, 0] [7, 8, 9])
        (example_writer repeated_int32 1 PLAIN (example_properties PLAIN False 100 100))))
      = [0, 1, 0]
   \<and> num_rows (snd (write_mini_batch ref (MiniBatch 3 [1, 1, 1] [0, 1, 0] [7, 8, 9])
        (example_writer repeated_int32 1 PLAIN (example_properties PLAIN False 100 100))))
      = 2"
  using rows_exceeded_keeps_partial_state [of
      "example_writer repeated_int32 1 PLAIN (example_properties PLAIN False 100 100)"
      "MiniBatch 3 [1, 1, 1] [0, 1, 0] [7, 8, 9]" ref]
  by (simp add: example_writer_PLAIN ColumnWriter_new_def repeated_int32_def batch_rows_def
      del: write_mini_batch.simps)

subsection \<open>Closing\<close>

lemma close_chunk_ok: "stats_paired w \<Longrightarrow> fst (close_chunk X w) = Inr ()"
  by (simp add: close_chunk_def Let_def and_then_alt FlushBufferedDataPages_ok)

lemma close_chunk_frame [simp]:
  "descr (snd (close_chunk X w)) = descr w"
  "properties (snd (close_chunk X w)) = properties w"
  "expected_rows (snd (close_chunk X w)) = expected_rows w"
  "has_dictionary (snd (close_chunk X w)) = has_dictionary w"
  "fallback (snd (close_chunk X w)) = fallback w"
  "encoding (snd (close_chunk X w)) = encoding w"
  "num_rows (snd (close_chunk X w)) = num_rows w"
  "stats_paired (snd (close_chunk X w)) = stats_paired w"
  "closed (snd (close_chunk X w))"
  by (simp_all add: close_chunk_def Let_def and_then_alt split: sum.splits)

lemma close_chunk_pager:
  "stats_paired w \<Longrightarrow> pager (snd (close_chunk X w)) =
     pager (snd (FlushBufferedDataPages X
            (if has_dictionary w \<and> \<not> fallback w
             then WriteDictionaryPage X (w\<lparr>closed := True\<rparr>) else w\<lparr>closed := True\<rparr>)))
     @ [PagerClosed (has_dictionary w) (fallback w)]"
  by (simp add: close_chunk_def Let_def and_then_alt FlushBufferedDataPages_ok)

lemma Close_closed_writer:
  "closed w \<Longrightarrow> Close X w =
     (if num_rows w \<noteq> expected_rows w
      then Inl (ParquetException (rows_mismatch_message (num_rows w) (expected_rows w)))
      else Inr (total_bytes_written w), w)"
  by (simp add: Close_def and_then_def)

lemma Close_snd:
  "snd (Close X w) = (if closed w then w else snd (close_chunk X w))"
  by (simp add: Close_def and_then_alt split: sum.splits)

lemma Close_frame [simp]:
  "descr (snd (Close X w)) = descr w"
  "properties (snd (Close X w)) = properties w"
  "expected_rows (snd (Close X w)) = expected_rows w"
  "has_dictionary (snd (Close X w)) = has_dictionary w"
  "fallback (snd (Close X w)) = fallback w"
  "encoding (snd (Close X w)) = encoding w"
  "num_rows (snd (Close X w)) = num_rows w"
  "stats_paired (snd (Close X w)) = stats_paired w"
  "closed (snd (Close X w))"
  by (simp_all add: Close_snd)

lemma Close_fst:
  "stats_paired w \<Longrightarrow> fst (Close X w) =
     (if num_rows w \<noteq> expected_rows w
      then Inl (ParquetException (rows_mismatch_message (num_rows w) (expected_rows w)))
      else Inr (total_bytes_written (snd (Close X w))))"
  by (simp add: Close_def and_then_alt close_chunk_ok)

text \<open>
  C8 as stated fails: a writer closed with the expected rows is closed again, and the
  second \<open>Close\<close> returns the byte count as the first did.
\<close>

theorem second_close_counterexample:
  "fst (Close ref (example_writer required_int32 0 PLAIN (example_properties PLAIN False 100 100)))
     = Inr 0
   \<and> fst (Close ref (snd (Close ref
        (example_writer required_int32 0 PLAIN (example_properties PLAIN False 100 100)))))
     = Inr 0"
  by code_simp

text \<open>
  C8, as the code has it. \<open>Close\<close> leaves the writer closed. On a closed writer
  \<open>Close\<close> changes nothing and gives the page writer nothing; it returns
  \<open>total_bytes_written\<close> when \<open>num_rows\<close> is \<open>expected_rows\<close>, and throws the row
  mismatch otherwise.
\<close>

theorem second_close:
  "closed (snd (Close X w))
   \<and> (closed w \<longrightarrow>
        Close X w =
          (if num_rows w \<noteq> expected_rows w
           then Inl (ParquetException (rows_mismatch_message (num_rows w) (expected_rows w)))
           else Inr (total_bytes_written w), w))"
  by (simp add: Close_closed_writer)

text \<open>The second close of a writer that expected, and got, no rows.\<close>

theorem second_close_witness:
  "closed (snd (Close ref (example_writer required_int32 0 PLAIN
                             (example_properties PLAIN False 100 100))))
   \<and> Close ref (snd (Close ref (example_writer required_int32 0 PLAIN
                                   (example_properties PLAIN False 100 100)))) =
       (Inr 0, snd (Close ref (example_writer required_int32 0 PLAIN
                                 (example_properties PLAIN False 100 100))))"
proof -
  let ?w = "snd (Close ref (example_writer required_int32 0 PLAIN
                              (example_properties PLAIN False 100 100)))"
  have n: "total_bytes_written ?w = 0"
    "num_rows (example_writer required_int32 0 PLAIN (example_properties PLAIN False 100 100)) = 0"
    "expected_rows (example_writer required_int32 0 PLAIN (example_properties PLAIN False 100 100)) = 0"
    by code_simp+
  show ?thesis
    using second_close [of ref ?w] second_close [of ref
        "example_writer required_int32 0 PLAIN (example_properties PLAIN False 100 100)"]
    by (simp add: n)
qed

subsection \<open>The messages of the row checks\<close>

lemma starts_with_append: "starts_with (x @ b) x"
  by (induction x) simp_all

lemma shows_text_starts: "starts_with ys x \<Longrightarrow> shows_text ys x"
  by (cases ys; cases x) simp_all

lemma shows_text_append: "shows_text ys x \<Longrightarrow> shows_text (a @ ys) x"
  by (induction a) simp_all

lemma shows_text_middle: "shows_text (a @ x @ b) x"
  by (simp add: shows_text_append shows_text_starts starts_with_append)

lemma rows_mismatch_message_shows:
  "shows_text (rows_mismatch_message r e) (show_int r)"
  "shows_text (rows_mismatch_message r e) (show_int e)"
proof -
  show "shows_text (rows_mismatch_message r e) (show_int r)"
    unfolding rows_mismatch_message_def by (rule shows_text_middle)
  have "rows_mismatch_message r e =
    (''Written rows: '' @ show_int r @ '' != expected rows: '') @ show_int e
     @ ''in the current column chunk''"
    by (simp add: rows_mismatch_message_def)
  then show "shows_text (rows_mismatch_message r e) (show_int e)"
    by (simp only: shows_text_middle)
qed

lemma write_mini_batch_exceeded:
  assumes "expected_rows w < num_rows w + batch_rows (max_repetition_level (descr w)) b"
  shows "fst (write_mini_batch X b w) = Inl rows_exceeded"
proof (cases b)
  case (MiniBatch n d r v)
  then show ?thesis using assms by (simp add: WriteMiniBatch_exceeded and_then_def)
next
  case (MiniBatchSpaced n d r vb off v)
  then show ?thesis using assms by (simp add: WriteMiniBatchSpaced_exceeded and_then_def)
qed

text \<open>
  C3, as the code has it. A mini-batch whose rows take \<open>num_rows\<close> past
  \<open>expected_rows\<close> throws an exception with one fixed message, which names no count.
  \<open>Close\<close> on a writer whose \<open>num_rows\<close> differs from \<open>expected_rows\<close> throws an
  exception whose message shows both counts.
\<close>

theorem row_budget_errors:
  "(expected_rows w < num_rows w + batch_rows (max_repetition_level (descr w)) b
      \<longrightarrow> fst (write_mini_batch X b w) =
            Inl (ParquetException
                   ''More rows were written in the column chunk than expected''))
   \<and> (stats_paired w \<longrightarrow> num_rows w \<noteq> expected_rows w
      \<longrightarrow> fst (Close X w) =
            Inl (ParquetException
                   (''Written rows: '' @ show_int (num_rows w) @ '' != expected rows: ''
                    @ show_int (expected_rows w) @ ''in the current column chunk''))
          \<and> shows_text (error_message (projl (fst (Close X w)))) (show_int (num_rows w))
          \<and> shows_text (error_message (projl (fst (Close X w))))
                (show_int (expected_rows w)))"
proof (intro conjI impI)
  assume "expected_rows w < num_rows w + batch_rows (max_repetition_level (descr w)) b"
  then show "fst (write_mini_batch X b w) =
      Inl (ParquetException ''More rows were written in the column chunk than expected'')"
    by (simp add: write_mini_batch_exceeded rows_exceeded_def)
next
  assume a: "stats_paired w" "num_rows w \<noteq> expected_rows w"
  then have c: "fst (Close X w) =
      Inl (ParquetException (rows_mismatch_message (num_rows w) (expected_rows w)))"
    by (simp add: Close_fst)
  show "fst (Close X w) =
      Inl (ParquetException
             (''Written rows: '' @ show_int (num_rows w) @ '' != expected rows: ''
              @ show_int (expected_rows w) @ ''in the current column chunk''))"
    using c by (simp add: rows_mismatch_message_def)
  show "shows_text (error_message (projl (fst (Close X w)))) (show_int (num_rows w))"
    by (simp add: c rows_mismatch_message_shows)
  show "shows_text (error_message (projl (fst (Close X w)))) (show_int (expected_rows w))"
    by (simp add: c rows_mismatch_message_shows)
qed

text \<open>
  C3 as stated fails for the write: two values for a column that expects one row are
  refused with a message that shows neither the 2 nor the 1.
\<close>

theorem row_budget_write_counterexample:
  "fst (write_mini_batch ref (MiniBatch 2 [] [] [5, 6])
          (example_writer required_int32 1 PLAIN (example_properties PLAIN False 100 100)))
     = Inl (ParquetException ''More rows were written in the column chunk than expected'')
   \<and> num_rows (snd (write_mini_batch ref (MiniBatch 2 [] [] [5, 6])
          (example_writer required_int32 1 PLAIN (example_properties PLAIN False 100 100)))) = 2
   \<and> expected_rows (snd (write_mini_batch ref (MiniBatch 2 [] [] [5, 6])
          (example_writer required_int32 1 PLAIN (example_properties PLAIN False 100 100)))) = 1
   \<and> \<not> shows_text ''More rows were written in the column chunk than expected'' (show_int 2)
   \<and> \<not> shows_text ''More rows were written in the column chunk than expected'' (show_int 1)"
  by code_simp

text \<open>
  A writer that expects one row: two values overflow it, and closing it with no row
  written reports 0 against 1.
\<close>

theorem row_budget_errors_witness:
  "expected_rows (example_writer required_int32 1 PLAIN (example_properties PLAIN False 100 100))
     < num_rows (example_writer required_int32 1 PLAIN (example_properties PLAIN False 100 100))
       + batch_rows (max_repetition_level (descr
           (example_writer required_int32 1 PLAIN (example_properties PLAIN False 100 100))))
           (MiniBatch 2 [] [] [5, 6 :: 32 word])
   \<and> fst (write_mini_batch ref (MiniBatch 2 [] [] [5, 6])
          (example_writer required_int32 1 PLAIN (example_properties PLAIN False 100 100)))
       = Inl (ParquetException ''More rows were written in the column chunk than expected'')
   \<and> stats_paired (example_writer required_int32 1 PLAIN (example_properties PLAIN False 100 100))
   \<and> num_rows (example_writer required_int32 1 PLAIN (example_properties PLAIN False 100 100))
       \<noteq> expected_rows
           (example_writer required_int32 1 PLAIN (example_properties PLAIN False 100 100))
   \<and> fst (Close ref
            (example_writer required_int32 1 PLAIN (example_properties PLAIN False 100 100)))
       = Inl (ParquetException
                ''Written rows: 0 != expected rows: 1in the current column chunk'')"
proof -
  let ?w = "example_writer required_int32 1 PLAIN (example_properties PLAIN False 100 100)"
  have h: "expected_rows ?w
     < num_rows ?w + batch_rows (max_repetition_level (descr ?w)) (MiniBatch 2 [] [] [5, 6 :: 32 word])"
    "stats_paired ?w" "num_rows ?w \<noteq> expected_rows ?w"
    by code_simp+
  have s: "show_int (num_rows ?w) = ''0''" "show_int (expected_rows ?w) = ''1''"
    by code_simp+
  show ?thesis
    using row_budget_errors [of ?w "MiniBatch 2 [] [] [5, 6]" ref] h
    by (simp add: s del: write_mini_batch.simps)
qed

subsection \<open>A batch of zero values\<close>

lemma cpp_div_zero [simp]: "cpp_div 0 b = 0" "cpp_mod 0 b = 0"
  by (simp_all add: cpp_div_def cpp_mod_def)

lemma static_cast_int_zero [simp]: "static_cast_int 0 = 0"
  by (simp add: static_cast_int_alt)

lemma WriteBatch_zero:
  "write_batch_size (properties w) \<noteq> 0 \<Longrightarrow>
   WriteBatch X 0 d r v w = and_then (WriteMiniBatch X 0 d r v w) (\<lambda>_ w2. (Inr (), w2))"
  by (simp add: WriteBatch_def Let_def WriteBatch_rounds.simps and_then_def)

lemma write_levels_zero: "write_levels 0 d r w = w"
  by (simp add: write_levels_def count_rows_def WriteDefinitionLevels_def
      WriteRepetitionLevels_def)

lemma WriteMiniBatch_zero:
  "WriteMiniBatch X 0 d r v w =
     (if expected_rows w < num_rows w then (Inl rows_exceeded, w)
      else and_then (after_values X 0 0 (update_page_statistics X v 0 0 (WriteValues X 0 v w)))
             (\<lambda>_ w5. (Inr 0, w5)))"
  by (simp add: WriteMiniBatch_def Let_def write_levels_zero count_values_to_write_def)

lemma after_values_quiet:
  assumes "EstimatedDataEncodedSize (encoders X) (current_encoder w) < data_pagesize (properties w)"
    and "\<not> (has_dictionary w \<and> \<not> fallback w
            \<and> dictionary_pagesize_limit (properties w)
                \<le> dict_encoded_size (encoders X) (current_encoder w))"
  shows "after_values X 0 0 w = (Inr (), w)"
  using assms
  by (auto simp add: after_values_def Let_def and_then_def CheckDictionarySizeLimit_def)

text \<open>
  C9, as the code has it. \<open>WriteBatch\<close> with zero values (and a batch size that is not
  zero) never changes \<open>num_rows\<close>. When \<open>num_rows\<close> is within \<open>expected_rows\<close>, the
  encoder's estimate after it was put zero values is below \<open>data_pagesize\<close>, and, with
  dictionary encoding active, the dictionary is below its size limit, the call returns
  normally and the writer differs from the one given only by the encoder and the page
  statistics having been handed zero values: no page is cut or queued, nothing reaches
  the page writer.
\<close>

theorem zero_batch:
  assumes "write_batch_size (properties w) \<noteq> 0"
  shows "num_rows (snd (WriteBatch X 0 d r v w)) = num_rows w
    \<and> (num_rows w \<le> expected_rows w
        \<longrightarrow> EstimatedDataEncodedSize (encoders X)
              (Put (encoders X) v 0 (current_encoder w)) < data_pagesize (properties w)
        \<longrightarrow> (has_dictionary w \<and> \<not> fallback w
              \<longrightarrow> dict_encoded_size (encoders X) (Put (encoders X) v 0 (current_encoder w))
                    < dictionary_pagesize_limit (properties w))
        \<longrightarrow> WriteBatch X 0 d r v w =
              (Inr (), update_page_statistics X v 0 0 (WriteValues X 0 v w))
            \<and> pager (snd (WriteBatch X 0 d r v w)) = pager w
            \<and> data_pages (snd (WriteBatch X 0 d r v w)) = data_pages w
            \<and> num_buffered_values (snd (WriteBatch X 0 d r v w)) = num_buffered_values w
            \<and> total_bytes_written (snd (WriteBatch X 0 d r v w)) = total_bytes_written w)"
proof (intro conjI impI)
  show "num_rows (snd (WriteBatch X 0 d r v w)) = num_rows w"
    using assms
    by (simp add: WriteBatch_zero and_then_alt WriteMiniBatch_num_rows batch_rows_def
        split: sum.splits)
next
  assume a: "num_rows w \<le> expected_rows w"
    "EstimatedDataEncodedSize (encoders X)
       (Put (encoders X) v 0 (current_encoder w)) < data_pagesize (properties w)"
    "has_dictionary w \<and> \<not> fallback w
       \<longrightarrow> dict_encoded_size (encoders X) (Put (encoders X) v 0 (current_encoder w))
             < dictionary_pagesize_limit (properties w)"
  let ?w4 = "update_page_statistics X v 0 0 (WriteValues X 0 v w)"
  have e: "current_encoder ?w4 = Put (encoders X) v 0 (current_encoder w)"
    by (simp add: WriteValues_def)
  have q: "after_values X 0 0 ?w4 = (Inr (), ?w4)"
    using a by (intro after_values_quiet) (auto simp add: WriteValues_def)
  show r: "WriteBatch X 0 d r v w = (Inr (), ?w4)"
    using assms a(1) by (simp add: WriteBatch_zero WriteMiniBatch_zero q and_then_def)
  show "pager (snd (WriteBatch X 0 d r v w)) = pager w"
    "data_pages (snd (WriteBatch X 0 d r v w)) = data_pages w"
    "num_buffered_values (snd (WriteBatch X 0 d r v w)) = num_buffered_values w"
    "total_bytes_written (snd (WriteBatch X 0 d r v w)) = total_bytes_written w"
    by (simp_all add: r)
qed

text \<open>
  C9 as stated fails for a configuration: with \<open>data_pagesize\<close> zero the estimate of
  the empty encoder reaches the threshold, and a batch of zero values cuts an empty page
  and writes it.
\<close>

theorem zero_batch_counterexample:
  "map is_data_page
     (pager (snd (WriteBatch ref 0 [] [] []
        (example_writer required_int32 0 PLAIN (example_properties PLAIN False 100 0)))))
     = [True]
   \<and> pager (example_writer required_int32 0 PLAIN (example_properties PLAIN False 100 0)) = []"
  by code_simp

text \<open>A fresh plain writer with a page size of 100 is left as it was.\<close>

theorem zero_batch_witness:
  "write_batch_size (properties
      (example_writer required_int32 0 PLAIN (example_properties PLAIN False 100 100))) \<noteq> 0
   \<and> WriteBatch ref 0 [] [] []
        (example_writer required_int32 0 PLAIN (example_properties PLAIN False 100 100))
      = (Inr (), example_writer required_int32 0 PLAIN (example_properties PLAIN False 100 100))"
proof -
  let ?w = "example_writer required_int32 0 PLAIN (example_properties PLAIN False 100 100)"
  have h: "write_batch_size (properties ?w) \<noteq> 0" "num_rows ?w \<le> expected_rows ?w"
    "EstimatedDataEncodedSize (encoders ref)
       (Put (encoders ref) [] 0 (current_encoder ?w)) < data_pagesize (properties ?w)"
    "\<not> has_dictionary ?w"
    by code_simp+
  have u: "update_page_statistics ref [] 0 0 (WriteValues ref 0 [] ?w) = ?w"
    by (simp add: example_writer_PLAIN ColumnWriter_new_def update_page_statistics_def
        WriteValues_def ref_def ref_encoders_def ref_put_values_def example_properties_def)
  show ?thesis
    using zero_batch [of ?w ref "[]" "[]" "[]"] h by (simp add: u)
qed

subsection \<open>The factory\<close>

lemma TypedColumnWriter_new_cases:
  "TypedColumnWriter_new X d rows enc props =
     (if enc = PLAIN \<or> enc = PLAIN_DICTIONARY \<or> enc = RLE_DICTIONARY
      then Inr (ColumnWriter_new d rows (enc \<noteq> PLAIN) enc props
                  (if enc = PLAIN then PlainEncoder_new (encoders X)
                   else DictEncoder_new (encoders X))
                  (if statistics_enabled props (path d)
                   then Some (TypedStats_new (stats X)) else None))
      else Inl (NYI ''Selected encoding is not supported''))"
  by (cases enc) (simp_all add: TypedColumnWriter_new_def Let_def)





subsection \<open>The dictionary page\<close>

lemma no_dictionary_page_append [simp]:
  "no_dictionary_page (xs @ ys) = (no_dictionary_page xs \<and> no_dictionary_page ys)"
  by (induction xs) auto

lemma no_dictionary_page_data [simp]: "no_dictionary_page (map DataPageWritten ps)"
  by (induction ps) simp_all

lemma one_dictionary_page_first_append:
  "xs \<noteq> [] \<Longrightarrow> one_dictionary_page_first (xs @ ys) =
     (one_dictionary_page_first xs \<and> no_dictionary_page ys)"
  by (cases xs) auto

lemma one_dictionary_page_first_more:
  "one_dictionary_page_first xs \<Longrightarrow> no_dictionary_page ys
    \<Longrightarrow> one_dictionary_page_first (xs @ ys)"
  by (cases xs) auto

lemma one_dictionary_page_first_nonempty: "one_dictionary_page_first xs \<Longrightarrow> xs \<noteq> []"
  by (cases xs) simp_all

lemma FlushBufferedDataPages_pager_form:
  "stats_paired w \<Longrightarrow>
   \<exists>ps. pager (snd (FlushBufferedDataPages X w)) = pager w @ map DataPageWritten ps"
  by (rule exI [where x = "if 0 < num_buffered_values w
        then (if has_dictionary w \<and> \<not> fallback w then data_pages w @ [cut_page X w]
              else cut_page X w # data_pages w)
        else data_pages w"])
     (simp add: FlushBufferedDataPages_pager)

lemma dictionary_inv_AddDataPage:
  "dictionary_inv w \<Longrightarrow> dictionary_inv (snd (AddDataPage X w))"
  by (auto simp add: dictionary_inv_def AddDataPage_pager one_dictionary_page_first_more)

lemma dictionary_inv_CheckDictionarySizeLimit:
  assumes "dictionary_inv w" "has_dictionary w" "\<not> fallback w"
  shows "dictionary_inv (snd (CheckDictionarySizeLimit X w))"
proof (cases "dictionary_pagesize_limit (properties w)
                \<le> dict_encoded_size (encoders X) (current_encoder w)")
  case True
  have sp: "stats_paired w" and p: "pager w = []"
    using assms by (simp_all add: dictionary_inv_def)
  obtain ps where ps: "pager (snd (FlushBufferedDataPages X (WriteDictionaryPage X w))) =
      pager (WriteDictionaryPage X w) @ map DataPageWritten ps"
    using FlushBufferedDataPages_pager_form [of "WriteDictionaryPage X w" X] sp by auto
  show ?thesis
    using True assms sp
    by (simp add: dictionary_inv_def CheckDictionarySizeLimit_reached ps
        WriteDictionaryPage_pager p)
next
  case False
  then show ?thesis
    using assms by (simp add: CheckDictionarySizeLimit_below)
qed

lemma dictionary_inv_bump:
  "dictionary_inv (w\<lparr>num_buffered_values := a, num_buffered_encoded_values := b\<rparr>)
     = dictionary_inv w"
  by (simp add: dictionary_inv_def)

lemma dictionary_inv_after_values:
  assumes "dictionary_inv w"
  shows "dictionary_inv (snd (after_values X n vtw w))"
proof -
  let ?w1 = "w\<lparr>num_buffered_values := num_buffered_values w + int n,
               num_buffered_encoded_values := num_buffered_encoded_values w + vtw\<rparr>"
  let ?w2 = "if data_pagesize (properties ?w1)
                \<le> EstimatedDataEncodedSize (encoders X) (current_encoder ?w1)
             then snd (AddDataPage X ?w1) else ?w1"
  have i1: "dictionary_inv ?w1"
    using assms by (simp add: dictionary_inv_bump)
  have i2: "dictionary_inv ?w2"
    using i1 by (simp add: dictionary_inv_AddDataPage del: AddDataPage_frame)
  have sp: "stats_paired ?w1"
    using i1 by (simp add: dictionary_inv_def)
  have e: "snd (after_values X n vtw w) =
      (if has_dictionary ?w2 \<and> \<not> fallback ?w2
       then snd (CheckDictionarySizeLimit X ?w2) else ?w2)"
    using sp by (simp add: after_values_def Let_def and_then_alt AddDataPage_ok)
  show ?thesis
    unfolding e using i2
    by (simp add: dictionary_inv_CheckDictionarySizeLimit del: AddDataPage_frame)
qed

lemma dictionary_inv_pre_values:
  "dictionary_inv (write_levels n d r w) = dictionary_inv w"
  "dictionary_inv (put_spaced X k1 k2 vb off v w) = dictionary_inv w"
  "dictionary_inv (WriteValues X k v w) = dictionary_inv w"
  "dictionary_inv (WriteValuesSpaced X k vb off v w) = dictionary_inv w"
  "dictionary_inv (update_page_statistics X v a b w) = dictionary_inv w"
  "dictionary_inv (update_page_statistics_spaced X v vb off a b w) = dictionary_inv w"
  by (simp_all add: dictionary_inv_def)

lemma dictionary_inv_WriteMiniBatch:
  "dictionary_inv w \<Longrightarrow> dictionary_inv (snd (WriteMiniBatch X n d r v w))"
  by (simp add: WriteMiniBatch_def Let_def and_then_alt dictionary_inv_pre_values
      dictionary_inv_after_values split: sum.splits)

lemma dictionary_inv_WriteMiniBatchSpaced:
  "dictionary_inv w \<Longrightarrow> dictionary_inv (snd (WriteMiniBatchSpaced X n d r vb off v w))"
  by (simp add: WriteMiniBatchSpaced_def Let_def and_then_alt dictionary_inv_pre_values
      dictionary_inv_after_values split: sum.splits)

lemma dictionary_inv_write_mini_batch:
  "dictionary_inv w \<Longrightarrow> dictionary_inv (snd (write_mini_batch X b w))"
  by (cases b)
     (simp_all add: and_then_alt dictionary_inv_WriteMiniBatch
       dictionary_inv_WriteMiniBatchSpaced split: sum.splits)

lemma dictionary_inv_after_mini_batches:
  "dictionary_inv w \<Longrightarrow> dictionary_inv (after_mini_batches X bs w)"
  by (induction bs arbitrary: w) (simp_all add: dictionary_inv_write_mini_batch)

lemma dictionary_inv_new:
  "TypedColumnWriter_new X d rows enc props = Inr w \<Longrightarrow>
     dictionary_inv w \<and> \<not> closed w
     \<and> has_dictionary w = (enc = PLAIN_DICTIONARY \<or> enc = RLE_DICTIONARY)"
  by (auto simp add: TypedColumnWriter_new_cases ColumnWriter_new_def dictionary_inv_def
      stats_paired_def split: if_splits)

lemma close_chunk_dictionary:
  assumes "dictionary_inv w"
  shows "if has_dictionary w then one_dictionary_page_first (pager (snd (close_chunk X w)))
         else no_dictionary_page (pager (snd (close_chunk X w)))"
proof -
  let ?w1 = "if has_dictionary w \<and> \<not> fallback w
             then WriteDictionaryPage X (w\<lparr>closed := True\<rparr>) else w\<lparr>closed := True\<rparr>"
  have sp: "stats_paired w" "stats_paired ?w1"
    using assms by (simp_all add: dictionary_inv_def)
  obtain ps where ps: "pager (snd (FlushBufferedDataPages X ?w1)) =
      pager ?w1 @ map DataPageWritten ps"
    using FlushBufferedDataPages_pager_form [OF sp(2)] by blast
  have p: "pager (snd (close_chunk X w)) =
      pager ?w1 @ map DataPageWritten ps @ [PagerClosed (has_dictionary w) (fallback w)]"
    using ps by (simp add: close_chunk_pager sp)
  show ?thesis
    unfolding p using assms
    by (auto simp add: dictionary_inv_def WriteDictionaryPage_pager
        one_dictionary_page_first_more)
qed

text \<open>
  C4. A writer the constructor built has \<open>has_dictionary\<close> exactly when it was given
  a dictionary encoding. After any list of mini-batch calls, whatever each returned,
  and \<open>Close\<close>: if the writer has a dictionary, the page writer received one dictionary
  page and received it first, before every data page, whether the fallback occurred or
  not; if it has none, the page writer received no dictionary page.
\<close>

theorem one_dictionary_page:
  assumes "TypedColumnWriter_new X d rows enc props = Inr w0"
  shows "has_dictionary w0 = (enc = PLAIN_DICTIONARY \<or> enc = RLE_DICTIONARY)
    \<and> (if has_dictionary w0
        then one_dictionary_page_first
               (pager (snd (Close X (after_mini_batches X bs w0))))
        else no_dictionary_page
               (pager (snd (Close X (after_mini_batches X bs w0)))))"
proof -
  let ?w = "after_mini_batches X bs w0"
  have i: "dictionary_inv ?w" and c: "\<not> closed ?w"
    using dictionary_inv_new [OF assms] by (simp_all add: dictionary_inv_after_mini_batches)
  have "if has_dictionary ?w then one_dictionary_page_first (pager (snd (close_chunk X ?w)))
        else no_dictionary_page (pager (snd (close_chunk X ?w)))"
    by (rule close_chunk_dictionary [OF i])
  then show ?thesis
    using c dictionary_inv_new [OF assms] by (simp add: Close_snd)
qed

lemma example_writer_new:
  "enc = PLAIN \<or> enc = PLAIN_DICTIONARY \<or> enc = RLE_DICTIONARY \<Longrightarrow>
   TypedColumnWriter_new ref d rows enc props = Inr (example_writer d rows enc props)"
  by (auto simp add: example_writer_def TypedColumnWriter_new_cases)

text \<open>
  Three values, a page size of one byte and a dictionary limit of eight bytes: the
  fallback happens at the second value, and the dictionary page is the first of five
  things the page writer receives.
\<close>

theorem one_dictionary_page_witness:
  "TypedColumnWriter_new ref required_int32 3 RLE_DICTIONARY (example_properties PLAIN True 8 1)
     = Inr (example_writer required_int32 3 RLE_DICTIONARY (example_properties PLAIN True 8 1))
   \<and> has_dictionary (example_writer required_int32 3 RLE_DICTIONARY
                        (example_properties PLAIN True 8 1))
   \<and> one_dictionary_page_first
        (pager (snd (Close ref (after_mini_batches ref
           [MiniBatch 1 [] [] [5], MiniBatch 1 [] [] [6], MiniBatch 1 [] [] [7]]
           (example_writer required_int32 3 RLE_DICTIONARY
              (example_properties PLAIN True 8 1))))))
   \<and> map is_dictionary_page
        (pager (snd (Close ref (after_mini_batches ref
           [MiniBatch 1 [] [] [5], MiniBatch 1 [] [] [6], MiniBatch 1 [] [] [7]]
           (example_writer required_int32 3 RLE_DICTIONARY
              (example_properties PLAIN True 8 1))))))
       = [True, False, False, False, False]"
proof -
  have n: "TypedColumnWriter_new ref required_int32 3 RLE_DICTIONARY
             (example_properties PLAIN True 8 1)
     = Inr (example_writer required_int32 3 RLE_DICTIONARY (example_properties PLAIN True 8 1))"
    by (simp add: example_writer_new)
  have m: "map is_dictionary_page
        (pager (snd (Close ref (after_mini_batches ref
           [MiniBatch 1 [] [] [5], MiniBatch 1 [] [] [6], MiniBatch 1 [] [] [7]]
           (example_writer required_int32 3 RLE_DICTIONARY
              (example_properties PLAIN True 8 1))))))
       = [True, False, False, False, False]"
    by code_simp
  show ?thesis
    using one_dictionary_page [OF n, of
        "[MiniBatch 1 [] [] [5], MiniBatch 1 [] [] [6], MiniBatch 1 [] [] [7]]"] n m
    by (simp del: after_mini_batches.simps split: if_splits)
qed

subsection \<open>The fallback\<close>

lemma all_plain_append [simp]: "all_plain (xs @ ys) = (all_plain xs \<and> all_plain ys)"
  by (induction xs) auto

lemma CheckDictionarySizeLimit_pager:
  assumes "stats_paired w" "has_dictionary w" "\<not> fallback w"
    and "dictionary_pagesize_limit (properties w)
           \<le> dict_encoded_size (encoders X) (current_encoder w)"
  shows "pager (snd (CheckDictionarySizeLimit X w)) =
     pager w @ DictionaryPageWritten (dictionary_page X w)
     # map DataPageWritten
         (data_pages w @ (if 0 < num_buffered_values w
                          then [cut_page X (WriteDictionaryPage X w)] else []))"
  using assms
  by (simp add: CheckDictionarySizeLimit_reached FlushBufferedDataPages_pager
      WriteDictionaryPage_pager)

lemma fallen_back_AddDataPage:
  "fallen_back w \<Longrightarrow>
     fallen_back (snd (AddDataPage X w))
     \<and> pager (snd (AddDataPage X w)) = pager w @ map DataPageWritten [cut_page X w]
     \<and> all_plain [cut_page X w]"
  by (simp add: fallen_back_def AddDataPage_pager AddDataPage_data_pages cut_page_def)

lemma fallen_back_bump:
  "fallen_back (w\<lparr>num_buffered_values := a, num_buffered_encoded_values := b\<rparr>)
     = fallen_back w"
  by (simp add: fallen_back_def)

lemma fallen_back_after_values:
  assumes "fallen_back w"
  shows "\<exists>ps. fallen_back (snd (after_values X n vtw w))
     \<and> pager (snd (after_values X n vtw w)) = pager w @ map DataPageWritten ps
     \<and> all_plain ps"
proof -
  let ?w1 = "w\<lparr>num_buffered_values := num_buffered_values w + int n,
               num_buffered_encoded_values := num_buffered_encoded_values w + vtw\<rparr>"
  have f1: "fallen_back ?w1"
    using assms by (simp add: fallen_back_bump)
  then have sp: "stats_paired ?w1" and fb: "has_dictionary ?w1" "fallback ?w1"
    by (simp_all add: fallen_back_def)
  have e: "snd (after_values X n vtw w) =
      (if data_pagesize (properties ?w1)
            \<le> EstimatedDataEncodedSize (encoders X) (current_encoder ?w1)
       then snd (AddDataPage X ?w1) else ?w1)"
    using sp fb by (simp add: after_values_def Let_def and_then_alt AddDataPage_ok)
  show ?thesis
  proof (cases "data_pagesize (properties ?w1)
            \<le> EstimatedDataEncodedSize (encoders X) (current_encoder ?w1)")
    case True
    then show ?thesis
      unfolding e using fallen_back_AddDataPage [OF f1, of X]
      by (intro exI [where x = "[cut_page X ?w1]"]) simp
  next
    case False
    then show ?thesis
      unfolding e using f1 by (intro exI [where x = "[]"]) simp
  qed
qed

lemma fallen_back_pre_values:
  "fallen_back (write_levels n d r w) = fallen_back w"
  "fallen_back (WriteValues X k v w) = fallen_back w"
  "fallen_back (put_spaced X k1 k2 vb off v w) = fallen_back w"
  "fallen_back (update_page_statistics X v a b w) = fallen_back w"
  "fallen_back (update_page_statistics_spaced X v vb off a b w) = fallen_back w"
  by (simp_all add: fallen_back_def)

lemma WriteMiniBatch_snd:
  "snd (WriteMiniBatch X n d r v w) =
     (if expected_rows w < num_rows (write_levels n d r w) then write_levels n d r w
      else snd (after_values X n (count_values_to_write (descr w) n d)
             (update_page_statistics X v (count_values_to_write (descr w) n d)
                (int n - count_values_to_write (descr w) n d)
                (WriteValues X (count_values_to_write (descr w) n d) v
                   (write_levels n d r w)))))"
  by (simp add: WriteMiniBatch_def Let_def and_then_alt split: sum.splits)

lemma WriteMiniBatchSpaced_snd:
  "snd (WriteMiniBatchSpaced X n d r vb off v w) =
     (if expected_rows w < num_rows (write_levels n d r w) then write_levels n d r w
      else snd (after_values X n (count_values_to_write (descr w) n d)
             (update_page_statistics_spaced X v vb off (count_values_to_write (descr w) n d)
                (int n - count_values_to_write (descr w) n d)
                (put_spaced X (count_spaced_values_to_write (descr w) n d)
                   (count_values_to_write (descr w) n d) vb off v
                   (write_levels n d r w)))))"
  by (simp add: WriteMiniBatchSpaced_def Let_def and_then_alt split: sum.splits)

lemma fallen_back_write_mini_batch:
  assumes "fallen_back w"
  shows "\<exists>ps. fallen_back (snd (write_mini_batch X b w))
     \<and> pager (snd (write_mini_batch X b w)) = pager w @ map DataPageWritten ps
     \<and> all_plain ps"
proof (cases b)
  case (MiniBatch n d r v)
  let ?vtw = "count_values_to_write (descr w) n d"
  let ?w4 = "update_page_statistics X v ?vtw (int n - ?vtw)
               (WriteValues X ?vtw v (write_levels n d r w))"
  have f4: "fallen_back ?w4"
    using assms by (simp add: fallen_back_pre_values)
  have s: "snd (write_mini_batch X b w) = snd (WriteMiniBatch X n d r v w)"
    by (simp add: MiniBatch and_then_alt split: sum.splits)
  show ?thesis
  proof (cases "expected_rows w < num_rows (write_levels n d r w)")
    case True
    then show ?thesis
      unfolding s WriteMiniBatch_snd using assms
      by (intro exI [where x = "[]"]) (simp add: fallen_back_pre_values)
  next
    case False
    then show ?thesis
      unfolding s WriteMiniBatch_snd
      using fallen_back_after_values [OF f4, of X n ?vtw] by simp
  qed
next
  case (MiniBatchSpaced n d r vb off v)
  let ?vtw = "count_values_to_write (descr w) n d"
  let ?w4 = "update_page_statistics_spaced X v vb off ?vtw (int n - ?vtw)
               (put_spaced X (count_spaced_values_to_write (descr w) n d) ?vtw vb off v
                  (write_levels n d r w))"
  have f4: "fallen_back ?w4"
    using assms by (simp add: fallen_back_pre_values)
  have s: "snd (write_mini_batch X b w) = snd (WriteMiniBatchSpaced X n d r vb off v w)"
    by (simp add: MiniBatchSpaced and_then_alt split: sum.splits)
  show ?thesis
  proof (cases "expected_rows w < num_rows (write_levels n d r w)")
    case True
    then show ?thesis
      unfolding s WriteMiniBatchSpaced_snd using assms
      by (intro exI [where x = "[]"]) (simp add: fallen_back_pre_values)
  next
    case False
    then show ?thesis
      unfolding s WriteMiniBatchSpaced_snd
      using fallen_back_after_values [OF f4, of X n ?vtw] by simp
  qed
qed

lemma fallen_back_after_mini_batches:
  "fallen_back w \<Longrightarrow>
   \<exists>ps. fallen_back (after_mini_batches X bs w)
     \<and> pager (after_mini_batches X bs w) = pager w @ map DataPageWritten ps
     \<and> all_plain ps"
proof (induction bs arbitrary: w)
  case Nil
  then show ?case by (intro exI [where x = "[]"]) simp
next
  case (Cons b bs)
  obtain ps where ps: "fallen_back (snd (write_mini_batch X b w))"
    "pager (snd (write_mini_batch X b w)) = pager w @ map DataPageWritten ps" "all_plain ps"
    using fallen_back_write_mini_batch [OF Cons.prems, of X b] by blast
  obtain qs where qs: "fallen_back (after_mini_batches X bs (snd (write_mini_batch X b w)))"
    "pager (after_mini_batches X bs (snd (write_mini_batch X b w))) =
       pager (snd (write_mini_batch X b w)) @ map DataPageWritten qs" "all_plain qs"
    using Cons.IH [OF ps(1)] by blast
  show ?case
    using ps qs by (intro exI [where x = "ps @ qs"]) simp
qed


lemma data_pages_of_append [simp]:
  "data_pages_of (xs @ ys) = data_pages_of xs @ data_pages_of ys"
  by (induction xs rule: data_pages_of.induct) simp_all

lemma data_pages_of_data [simp]: "data_pages_of (map DataPageWritten ps) = ps"
  by (induction ps) simp_all

lemma fallen_back_Close:
  assumes "fallen_back w"
  shows "\<exists>ps. data_pages_of (pager (snd (Close X w))) = data_pages_of (pager w) @ ps
           \<and> all_plain ps"
proof (cases "closed w")
  case True
  then show ?thesis
    by (intro exI [where x = "[]"]) (simp add: Close_snd)
next
  case False
  let ?w1 = "w\<lparr>closed := True\<rparr>"
  have f: "stats_paired w" "has_dictionary w" "fallback w" "encoding w = PLAIN"
    "data_pages w = []"
    using assms by (simp_all add: fallen_back_def)
  have p: "pager (snd (close_chunk X w)) =
      pager (snd (FlushBufferedDataPages X ?w1)) @ [PagerClosed True True]"
    using f by (simp add: close_chunk_pager)
  have q: "pager (snd (FlushBufferedDataPages X ?w1)) =
      pager w @ map DataPageWritten (if 0 < num_buffered_values w then [cut_page X ?w1] else [])"
    using f by (simp add: FlushBufferedDataPages_pager)
  have e: "page_encoding (cut_page X ?w1) = PLAIN"
    using f by (simp add: cut_page_def)
  show ?thesis
    using False e
    by (intro exI [where x = "if 0 < num_buffered_values w then [cut_page X ?w1] else []"])
       (simp add: Close_snd p q)
qed

text \<open>
  C5, as the code has it. When the dictionary size check of a writer with an active
  dictionary finds the limit reached, the page writer receives the dictionary page
  first, then the queued data pages in the order they were queued, the values still
  buffered being cut and queued as the last of them. The writer has then fallen back:
  its encoding is PLAIN, its encoder a new plain encoder, its queue empty. Every data
  page that later mini-batches and \<open>Close\<close> add to the page writer has the encoding
  PLAIN.
\<close>

theorem fallback_order:
  assumes "stats_paired w" "has_dictionary w" "\<not> fallback w"
    and "dictionary_pagesize_limit (properties w)
           \<le> dict_encoded_size (encoders X) (current_encoder w)"
  shows "pager (snd (CheckDictionarySizeLimit X w)) =
      pager w @ DictionaryPageWritten (dictionary_page X w)
      # map DataPageWritten
          (data_pages w @ (if 0 < num_buffered_values w
                           then [cut_page X (WriteDictionaryPage X w)] else []))
    \<and> fallback (snd (CheckDictionarySizeLimit X w))
    \<and> encoding (snd (CheckDictionarySizeLimit X w)) = PLAIN
    \<and> current_encoder (snd (CheckDictionarySizeLimit X w)) = PlainEncoder_new (encoders X)
    \<and> data_pages (snd (CheckDictionarySizeLimit X w)) = []
    \<and> (\<exists>ps. pager (after_mini_batches X bs (snd (CheckDictionarySizeLimit X w))) =
               pager (snd (CheckDictionarySizeLimit X w)) @ map DataPageWritten ps
             \<and> all_plain ps)
    \<and> (\<exists>ps. data_pages_of
               (pager (snd (Close X (after_mini_batches X bs
                                       (snd (CheckDictionarySizeLimit X w)))))) =
               data_pages_of (pager (snd (CheckDictionarySizeLimit X w))) @ ps
             \<and> all_plain ps)"
proof -
  let ?w = "snd (CheckDictionarySizeLimit X w)"
  have r: "fallback ?w" "encoding ?w = PLAIN"
    "current_encoder ?w = PlainEncoder_new (encoders X)" "data_pages ?w = []"
    using assms(1,4) by (simp_all add: CheckDictionarySizeLimit_reached)
  have f: "fallen_back ?w"
    using r assms(1,2) by (simp add: fallen_back_def)
  obtain ps where ps: "fallen_back (after_mini_batches X bs ?w)"
    "pager (after_mini_batches X bs ?w) = pager ?w @ map DataPageWritten ps" "all_plain ps"
    using fallen_back_after_mini_batches [OF f, of X bs] by blast
  obtain qs where qs: "data_pages_of (pager (snd (Close X (after_mini_batches X bs ?w)))) =
      data_pages_of (pager (after_mini_batches X bs ?w)) @ qs" "all_plain qs"
    using fallen_back_Close [OF ps(1), of X] by blast
  have "\<exists>ps. pager (after_mini_batches X bs ?w) = pager ?w @ map DataPageWritten ps
          \<and> all_plain ps"
    using ps by blast
  moreover have "\<exists>ps. data_pages_of (pager (snd (Close X (after_mini_batches X bs ?w)))) =
      data_pages_of (pager ?w) @ ps \<and> all_plain ps"
    using ps qs by (intro exI [where x = "ps @ qs"]) simp
  ultimately show ?thesis
    using r CheckDictionarySizeLimit_pager [OF assms] by simp
qed

text \<open>
  C5 as stated fails: with a page queued by the first value, the second value brings
  the dictionary to its limit, and the page writer receives the dictionary page before
  the two data pages, not after them.
\<close>

theorem fallback_order_counterexample:
  "pager (after_mini_batches ref [MiniBatch 1 [] [] [5]]
       (example_writer required_int32 3 RLE_DICTIONARY (example_properties PLAIN True 8 1))) = []
   \<and> length (data_pages (after_mini_batches ref [MiniBatch 1 [] [] [5]]
       (example_writer required_int32 3 RLE_DICTIONARY (example_properties PLAIN True 8 1)))) = 1
   \<and> \<not> fallback (after_mini_batches ref [MiniBatch 1 [] [] [5]]
       (example_writer required_int32 3 RLE_DICTIONARY (example_properties PLAIN True 8 1)))
   \<and> fallback (after_mini_batches ref [MiniBatch 1 [] [] [5], MiniBatch 1 [] [] [6]]
       (example_writer required_int32 3 RLE_DICTIONARY (example_properties PLAIN True 8 1)))
   \<and> map is_dictionary_page
       (pager (after_mini_batches ref [MiniBatch 1 [] [] [5], MiniBatch 1 [] [] [6]]
          (example_writer required_int32 3 RLE_DICTIONARY (example_properties PLAIN True 8 1))))
      = [True, False, False]"
  by code_simp


text \<open>
  A writer with one page queued whose encoder has just been given a second distinct
  value, which brings the dictionary to the limit of eight bytes.
\<close>

theorem fallback_order_witness:
  "stats_paired (WriteValues ref 1 [6]
        (after_mini_batches ref [MiniBatch 1 [] [] [5]]
           (example_writer required_int32 3 RLE_DICTIONARY (example_properties PLAIN True 8 1))))
   \<and> has_dictionary (WriteValues ref 1 [6]
        (after_mini_batches ref [MiniBatch 1 [] [] [5]]
           (example_writer required_int32 3 RLE_DICTIONARY (example_properties PLAIN True 8 1))))
   \<and> \<not> fallback (WriteValues ref 1 [6]
        (after_mini_batches ref [MiniBatch 1 [] [] [5]]
           (example_writer required_int32 3 RLE_DICTIONARY (example_properties PLAIN True 8 1))))
   \<and> dictionary_pagesize_limit (properties (WriteValues ref 1 [6]
        (after_mini_batches ref [MiniBatch 1 [] [] [5]]
           (example_writer required_int32 3 RLE_DICTIONARY (example_properties PLAIN True 8 1)))))
       \<le> dict_encoded_size (encoders ref) (current_encoder (WriteValues ref 1 [6]
        (after_mini_batches ref [MiniBatch 1 [] [] [5]]
           (example_writer required_int32 3 RLE_DICTIONARY (example_properties PLAIN True 8 1)))))
   \<and> length (data_pages (WriteValues ref 1 [6]
        (after_mini_batches ref [MiniBatch 1 [] [] [5]]
           (example_writer required_int32 3 RLE_DICTIONARY (example_properties PLAIN True 8 1))))) = 1
   \<and> pager (snd (CheckDictionarySizeLimit ref (WriteValues ref 1 [6]
        (after_mini_batches ref [MiniBatch 1 [] [] [5]]
           (example_writer required_int32 3 RLE_DICTIONARY (example_properties PLAIN True 8 1)))))) =
       DictionaryPageWritten (dictionary_page ref (WriteValues ref 1 [6]
        (after_mini_batches ref [MiniBatch 1 [] [] [5]]
           (example_writer required_int32 3 RLE_DICTIONARY (example_properties PLAIN True 8 1))))) # map DataPageWritten (data_pages (WriteValues ref 1 [6]
        (after_mini_batches ref [MiniBatch 1 [] [] [5]]
           (example_writer required_int32 3 RLE_DICTIONARY (example_properties PLAIN True 8 1)))))
   \<and> fallback (snd (CheckDictionarySizeLimit ref (WriteValues ref 1 [6]
        (after_mini_batches ref [MiniBatch 1 [] [] [5]]
           (example_writer required_int32 3 RLE_DICTIONARY (example_properties PLAIN True 8 1))))))
   \<and> encoding (snd (CheckDictionarySizeLimit ref (WriteValues ref 1 [6]
        (after_mini_batches ref [MiniBatch 1 [] [] [5]]
           (example_writer required_int32 3 RLE_DICTIONARY (example_properties PLAIN True 8 1)))))) = PLAIN"
proof -
  let ?W = "(WriteValues ref 1 [6]
        (after_mini_batches ref [MiniBatch 1 [] [] [5]]
           (example_writer required_int32 3 RLE_DICTIONARY (example_properties PLAIN True 8 1))))"
  have h: "stats_paired ?W" "has_dictionary ?W" "\<not> fallback ?W"
    "dictionary_pagesize_limit (properties ?W)
       \<le> dict_encoded_size (encoders ref) (current_encoder ?W)"
    by code_simp+
  have k: "num_buffered_values ?W = 0" "pager ?W = []" "length (data_pages ?W) = 1"
    by code_simp+
  show ?thesis
    using fallback_order [OF h, of "[]"] h k
    by (simp del: after_mini_batches.simps)
qed

subsection \<open>The values a page counts\<close>

text \<open>
  The header of a page carries the number of buffered levels as an \<^verbatim>\<open>int32_t\<close>. The
  invariant \<open>accounted\<close> follows the levels of the calls that returned through the
  three places they can be: the pages the page writer has, the queued pages, the buffer.
\<close>

lemma sum_num_values_append [simp]:
  "sum_num_values (xs @ ys) = sum_num_values xs + sum_num_values ys"
  by (induction xs) simp_all


text \<open>Every step of the writer keeps the account, below \<open>2^31\<close> levels.\<close>

lemma accounted_bound: "accounted w T \<Longrightarrow> num_buffered_values w \<le> T"
  by (simp add: accounted_def)




lemma accounted_update [simp]:
  "accounted (w\<lparr>closed := c\<rparr>) T = accounted w T"
  "accounted (w\<lparr>fallback := f, current_encoder := e, encoding := g\<rparr>) T = accounted w T"
  by (simp_all add: accounted_def)






















end
